theory Spec2Isabelle
  imports Main
    "HOL-Library.Char_ord"
    "HOL-Library.List_Lexorder"
    "HOL-Library.Product_Lexorder"
    "HOL-Library.Option_ord"
    "HOL-Library.Multiset"
begin

section \<open>Python strings\<close>

text \<open>
  A Python \<open>str\<close> is modelled as a \<open>string\<close>, one \<open>char\<close> per code point.  The model
  covers ASCII text: characters from 128 on are carried through unchanged by \<open>upper\<close>,
  \<open>lower\<close> and \<open>title\<close> and are neither white space, digits nor word characters.
\<close>

definition ascii_lower :: string where
  "ascii_lower = ''abcdefghijklmnopqrstuvwxyz''"

definition ascii_upper :: string where
  "ascii_upper = ''ABCDEFGHIJKLMNOPQRSTUVWXYZ''"

definition ascii_digits :: string where
  "ascii_digits = ''0123456789''"

text \<open>\<open>str.isspace\<close> on ASCII: tab, line feed, VT, FF, CR, the four separators
  \<open>0x1C\<close> to \<open>0x1F\<close>, and the blank.\<close>

definition is_space :: "char \<Rightarrow> bool" where
  "is_space c = (c \<in> set [CHR 0x09, CHR 0x0A, CHR 0x0B, CHR 0x0C, CHR 0x0D,
                            CHR 0x1C, CHR 0x1D, CHR 0x1E, CHR 0x1F, CHR 0x20])"

definition is_digit :: "char \<Rightarrow> bool" where
  "is_digit c = (c \<in> set ascii_digits)"

definition is_alpha :: "char \<Rightarrow> bool" where
  "is_alpha c = (c \<in> set ascii_lower \<or> c \<in> set ascii_upper)"

text \<open>The regular expressions' \<open>\w\<close>: a letter, a digit or the underscore.\<close>

definition is_word :: "char \<Rightarrow> bool" where
  "is_word c = (is_alpha c \<or> is_digit c \<or> c = CHR ''_'')"

definition upper_char :: "char \<Rightarrow> char" where
  "upper_char c = (case map_of (zip ascii_lower ascii_upper) c of Some u \<Rightarrow> u | None \<Rightarrow> c)"

definition lower_char :: "char \<Rightarrow> char" where
  "lower_char c = (case map_of (zip ascii_upper ascii_lower) c of Some l \<Rightarrow> l | None \<Rightarrow> c)"

definition upper :: "string \<Rightarrow> string" where
  "upper s = map upper_char s"

definition lower :: "string \<Rightarrow> string" where
  "lower s = map lower_char s"

definition lstrip :: "string \<Rightarrow> string" where
  "lstrip s = dropWhile is_space s"

definition rstrip :: "string \<Rightarrow> string" where
  "rstrip s = rev (dropWhile is_space (rev s))"

definition strip :: "string \<Rightarrow> string" where
  "strip s = rstrip (lstrip s)"

text \<open>\<open>s.startswith(p)\<close>, \<open>s.endswith(p)\<close> and \<open>k in s\<close>.\<close>

fun startswith :: "string \<Rightarrow> string \<Rightarrow> bool" where
  "startswith s [] = True"
| "startswith [] (p # ps) = False"
| "startswith (c # cs) (p # ps) = (c = p \<and> startswith cs ps)"

definition endswith :: "string \<Rightarrow> string \<Rightarrow> bool" where
  "endswith s p = startswith (rev s) (rev p)"

fun contains :: "string \<Rightarrow> string \<Rightarrow> bool" where
  "contains [] k = (k = [])"
| "contains (c # cs) k = (startswith (c # cs) k \<or> contains cs k)"

text \<open>\<open>any(k in s for k in ks)\<close>.\<close>

definition contains_any :: "string \<Rightarrow> string list \<Rightarrow> bool" where
  "contains_any s ks = list_ex (contains s) ks"

text \<open>\<open>s.replace(a, b)\<close> for a one-character \<open>a\<close>.\<close>

definition replace_char :: "char \<Rightarrow> string \<Rightarrow> string \<Rightarrow> string" where
  "replace_char a b s = concat (map (\<lambda>c. if c = a then b else [c]) s)"

section \<open>Python numbers read from text\<close>

datatype py_error = ValueError | TypeError | OverflowError | AttributeError | IndexError | KeyError

definition digit_val :: "char \<Rightarrow> int" where
  "digit_val c = of_char c - of_char (CHR ''0'')"

definition digits_val :: "string \<Rightarrow> int" where
  "digits_val ds = foldl (\<lambda>a c. 10 * a + digit_val c) 0 ds"

text \<open>
  Both \<open>int(s)\<close> and \<open>float(s)\<close> accept single underscores between digits: an underscore
  must follow a digit and precede one.  The result is the text without them, or \<open>None\<close>
  where the text is refused.
\<close>

fun drop_underscores :: "char \<Rightarrow> string \<Rightarrow> string option" where
  "drop_underscores prev [] = (if prev = CHR ''_'' then None else Some [])"
| "drop_underscores prev (c # cs) =
     (if c = CHR ''_'' then (if is_digit prev then drop_underscores c cs else None)
      else if prev = CHR ''_'' \<and> \<not> is_digit c then None
      else map_option ((#) c) (drop_underscores c cs))"

text \<open>An optional sign: whether it is a minus, and the rest.\<close>

fun split_sign :: "string \<Rightarrow> bool \<times> string" where
  "split_sign [] = (False, [])"
| "split_sign (c # cs) =
     (if c = CHR ''-'' then (True, cs) else if c = CHR ''+'' then (False, cs) else (False, c # cs))"

text \<open>\<open>int(s)\<close> for a string, base ten: \<open>None\<close> is ValueError.\<close>

definition int_of_str :: "string \<Rightarrow> int option" where
  "int_of_str s =
     (case drop_underscores (CHR 0x00) s of
        None \<Rightarrow> None
      | Some t \<Rightarrow>
          (let (neg, ds) = split_sign (strip t)
           in if ds = [] \<or> \<not> list_all is_digit ds then None
              else Some (if neg then - digits_val ds else digits_val ds)))"

text \<open>\<open>str(n)\<close> for an integer.\<close>

function str_of_nat :: "int \<Rightarrow> string" where
  "str_of_nat n =
     (if n < 10 then [ascii_digits ! nat n]
      else str_of_nat (n div 10) @ [ascii_digits ! nat (n mod 10)])"
  by pat_completeness auto
termination
  by (relation "measure nat") auto

declare str_of_nat.simps [simp del]

definition str_of_int :: "int \<Rightarrow> string" where
  "str_of_int i = (if i < 0 then CHR ''-'' # str_of_nat (- i) else str_of_nat i)"

subsection \<open>Floats\<close>

text \<open>
  A float is kept exactly: a finite one is \<open>m * 2 ^ e\<close> with a sign.  \<open>float(s)\<close> rounds
  the decimal number to the nearest double, ties to even, as IEEE 754 binary64 does:
  53 bits of mantissa, the unit in the last place no smaller than \<open>2 ^ -1074\<close>, and
  infinity from \<open>2 ^ 1024\<close> on.
\<close>

datatype pyfloat = Finite bool int int | Infinity bool | NaN

text \<open>The number of bits of a positive integer.\<close>

function bit_length :: "int \<Rightarrow> int" where
  "bit_length n = (if n \<le> 0 then 0 else 1 + bit_length (n div 2))"
  by pat_completeness auto
termination
  by (relation "measure nat") auto

declare bit_length.simps [simp del]

text \<open>The \<open>k\<close> with \<open>2 ^ k \<le> n / d < 2 ^ (k + 1)\<close>, for positive \<open>n\<close> and \<open>d\<close>.\<close>

definition floor_log2 :: "int \<Rightarrow> int \<Rightarrow> int" where
  "floor_log2 n d =
     (let k = bit_length n - bit_length d
      in if (if 0 \<le> k then d * 2 ^ nat k \<le> n else d \<le> n * 2 ^ nat (- k)) then k else k - 1)"

text \<open>\<open>n / d\<close> rounded to the nearest integer, a tie to the even one.\<close>

definition round_half_even :: "int \<Rightarrow> int \<Rightarrow> int" where
  "round_half_even n d =
     (let q = n div d; r = n mod d
      in if 2 * r < d then q else if d < 2 * r then q + 1 else if even q then q else q + 1)"

text \<open>The double nearest to \<open>n / d\<close> (\<open>n \<ge> 0\<close>, \<open>d > 0\<close>), with the sign \<open>neg\<close>; the
  mantissa \<open>m\<close> has at most 54 bits, so \<open>m * 2 ^ e\<close> reaches \<open>2 ^ 1024\<close> exactly when
  the bits of \<open>m\<close> and \<open>e\<close> add up to more than 1024.\<close>

definition round_double :: "bool \<Rightarrow> int \<Rightarrow> int \<Rightarrow> pyfloat" where
  "round_double neg n d =
     (if n = 0 then Finite neg 0 0
      else let e = max (floor_log2 n d - 52) (- 1074);
               m = (if 0 \<le> e then round_half_even n (d * 2 ^ nat e)
                    else round_half_even (n * 2 ^ nat (- e)) d)
           in if 1024 < bit_length m + e then Infinity neg else Finite neg m e)"

text \<open>The decimal literal after the sign: digits, an optional fraction, an optional
  exponent; at least one digit before the exponent.\<close>

definition float_of_decimal :: "bool \<Rightarrow> string \<Rightarrow> pyfloat option" where
  "float_of_decimal neg s =
     (let ip = takeWhile is_digit s; r1 = dropWhile is_digit s;
          fp = (if startswith r1 ''.'' then takeWhile is_digit (tl r1) else []);
          r2 = (if startswith r1 ''.'' then dropWhile is_digit (tl r1) else r1);
          ds = digits_val (ip @ fp)
      in if ip = [] \<and> fp = [] then None
         else if r2 = [] then Some (round_double neg ds (10 ^ length fp))
         else if hd r2 = CHR ''e'' \<or> hd r2 = CHR ''E'' then
           (let (eneg, ed) = split_sign (tl r2)
            in if ed = [] \<or> \<not> list_all is_digit ed then None
               else let x = (if eneg then - digits_val ed else digits_val ed) - int (length fp)
                    in Some (if 0 \<le> x then round_double neg (ds * 10 ^ nat x) 1
                             else round_double neg ds (10 ^ nat (- x))))
         else None)"

text \<open>\<open>float(s)\<close> for a string: \<open>None\<close> is ValueError.\<close>

definition float_of_str :: "string \<Rightarrow> pyfloat option" where
  "float_of_str s =
     (case drop_underscores (CHR 0x00) s of
        None \<Rightarrow> None
      | Some t \<Rightarrow>
          (let (neg, r) = split_sign (strip t)
           in if lower r = ''inf'' \<or> lower r = ''infinity'' then Some (Infinity neg)
              else if lower r = ''nan'' then Some NaN
              else float_of_decimal neg r))"

text \<open>\<open>float(n)\<close> for an integer: the nearest double, OverflowError beyond the range.\<close>

definition float_of_int :: "int \<Rightarrow> py_error + pyfloat" where
  "float_of_int i =
     (case round_double (i < 0) \<bar>i\<bar> 1 of
        Infinity _ \<Rightarrow> Inl OverflowError
      | f \<Rightarrow> Inr f)"

text \<open>\<open>int(x)\<close> for a float: truncation towards zero; infinity raises OverflowError and
  a NaN ValueError.\<close>

fun int_of_float :: "pyfloat \<Rightarrow> py_error + int" where
  "int_of_float (Infinity _) = Inl OverflowError"
| "int_of_float NaN = Inl ValueError"
| "int_of_float (Finite neg m e) =
     (let a = (if 0 \<le> e then m * 2 ^ nat e else m div 2 ^ nat (- e))
      in Inr (if neg then - a else a))"

text \<open>\<open>int(float(s))\<close> for a string \<open>s\<close>.\<close>

definition int_float_str :: "string \<Rightarrow> py_error + int" where
  "int_float_str s = (case float_of_str s of None \<Rightarrow> Inl ValueError | Some f \<Rightarrow> int_of_float f)"

text \<open>\<open>int(float(n))\<close> for an integer \<open>n\<close>.\<close>

definition int_float_int :: "int \<Rightarrow> py_error + int" where
  "int_float_int i = (case float_of_int i of Inl e \<Rightarrow> Inl e | Inr f \<Rightarrow> int_of_float f)"

section \<open>Python dicts\<close>

text \<open>
  A dict whose order matters is an association list in insertion order with one entry
  per key: \<open>d[k] = v\<close> replaces the value of a key that is there and appends a new key
  at the end.
\<close>

fun dict_put :: "('k \<times> 'v) list \<Rightarrow> 'k \<Rightarrow> 'v \<Rightarrow> ('k \<times> 'v) list" where
  "dict_put [] k v = [(k, v)]"
| "dict_put ((k', v') # d) k v = (if k' = k then (k, v) # d else (k', v') # dict_put d k v)"

text \<open>\<open>d.get(k, dflt)\<close>, which is also what a \<open>defaultdict\<close> reads.\<close>

definition dict_get :: "('k \<times> 'v) list \<Rightarrow> 'k \<Rightarrow> 'v \<Rightarrow> 'v" where
  "dict_get d k dflt = (case map_of d k of Some v \<Rightarrow> v | None \<Rightarrow> dflt)"

section \<open>The Candidate Aggregator\<close>

text \<open>
  A precinct record and a candidate aggregate are dicts with the same nine keys.  A
  vote-method sub-total is \<open>None\<close>, an integer or the text of a cell; the party is a
  string, or \<open>None\<close> where the row was too short to have the cell.
\<close>

datatype subval = SNone | SInt int | SStr string

record vote_record =
  county :: string
  office :: string
  district :: string
  candidate :: string
  party :: "string option"
  total_votes :: int
  early_voting :: subval
  election_day :: subval
  provisional :: subval

type_synonym group_key = "string \<times> string \<times> string \<times> string \<times> string option"

definition group_key :: "vote_record \<Rightarrow> group_key" where
  "group_key r = (county r, office r, district r, candidate r, party r)"

text \<open>The truth value of \<open>r[field]\<close>.\<close>

fun truthy :: "subval \<Rightarrow> bool" where
  "truthy SNone = False"
| "truthy (SInt i) = (i \<noteq> 0)"
| "truthy (SStr s) = (s \<noteq> [])"

text \<open>\<open>int(float(r[field])) if r[field] else 0\<close>.\<close>

fun sub_int :: "subval \<Rightarrow> py_error + int" where
  "sub_int SNone = Inr 0"
| "sub_int (SInt i) = (if i \<noteq> 0 then int_float_int i else Inr 0)"
| "sub_int (SStr s) = (if s \<noteq> [] then int_float_str s else Inr 0)"

text \<open>
  \<open>try: agg[key][field] += val\<close> with \<open>except (ValueError, TypeError): pass\<close>: any
  other exception leaves the function.
\<close>

definition add_field :: "subval \<Rightarrow> int \<Rightarrow> py_error + int" where
  "add_field v acc =
     (case sub_int v of
        Inr n \<Rightarrow> Inr (acc + n)
      | Inl e \<Rightarrow> if e = ValueError \<or> e = TypeError then Inr acc else Inl e)"

text \<open>The values of one group: \<open>total_votes\<close>, \<open>early_voting\<close>, \<open>election_day\<close>,
  \<open>provisional\<close>.  The dict \<open>agg\<close> is an association list in insertion order.\<close>

type_synonym vals = "int \<times> int \<times> int \<times> int"

type_synonym agg = "(group_key \<times> vals) list"

definition agg_get :: "agg \<Rightarrow> group_key \<Rightarrow> vals" where
  "agg_get a k = dict_get a k (0, 0, 0, 0)"


text \<open>The body of the loop over the records.\<close>

definition agg_step :: "vote_record \<Rightarrow> agg \<Rightarrow> py_error + agg" where
  "agg_step r a =
     (let key = group_key r; (t, e, d, p) = agg_get a key
      in case add_field (early_voting r) e of
           Inl x \<Rightarrow> Inl x
         | Inr e' \<Rightarrow>
             (case add_field (election_day r) d of
                Inl x \<Rightarrow> Inl x
              | Inr d' \<Rightarrow>
                  (case add_field (provisional r) p of
                     Inl x \<Rightarrow> Inl x
                   | Inr p' \<Rightarrow> Inr (dict_put a key (t + total_votes r, e', d', p')))))"

fun agg_loop :: "vote_record list \<Rightarrow> agg \<Rightarrow> py_error + agg" where
  "agg_loop [] a = Inr a"
| "agg_loop (r # rs) a = (case agg_step r a of Inl x \<Rightarrow> Inl x | Inr a' \<Rightarrow> agg_loop rs a')"

text \<open>
  \<open>sorted(agg.items())\<close> orders the items by their keys, tuples of five, each compared
  at the first component where two of them differ.  The first four components are
  strings; the party may be \<open>None\<close>, and comparing \<open>None\<close> with a string raises
  TypeError.  Two keys that differ in the party alone are neighbours in every order of
  the keys, so sorting has to compare two such keys; hence it raises exactly when two
  keys agree on the four strings and one party of the two is \<open>None\<close>.
\<close>

fun unorderable :: "group_key \<Rightarrow> group_key \<Rightarrow> bool" where
  "unorderable (c1, o1, d1, n1, p1) (c2, o2, d2, n2, p2) =
     (c1 = c2 \<and> o1 = o2 \<and> d1 = d2 \<and> n1 = n2 \<and> (p1 = None) \<noteq> (p2 = None))"

definition sorted_items :: "agg \<Rightarrow> py_error + agg" where
  "sorted_items a =
     (if list_ex (\<lambda>k1. list_ex (unorderable k1) (map fst a)) (map fst a) then Inl TypeError
      else Inr (sort_key fst a))"

text \<open>\<open>vals[field] if vals[field] > 0 else ''\<close>.\<close>

definition sub_out :: "int \<Rightarrow> subval" where
  "sub_out v = (if 0 < v then SInt v else SStr [])"

fun result_of :: "group_key \<times> vals \<Rightarrow> vote_record" where
  "result_of ((c, off, dist, cand, pty), (t, e, d, p)) =
     \<lparr>county = c, office = off, district = dist, candidate = cand, party = pty,
      total_votes = t, early_voting = sub_out e, election_day = sub_out d,
      provisional = sub_out p\<rparr>"

definition aggregate_to_candidates :: "vote_record list \<Rightarrow> py_error + vote_record list" where
  "aggregate_to_candidates precinct_records =
     (case agg_loop precinct_records [] of
        Inl x \<Rightarrow> Inl x
      | Inr a \<Rightarrow> (case sorted_items a of Inl x \<Rightarrow> Inl x | Inr items \<Rightarrow> Inr (map result_of items)))"

subsection \<open>What the aggregate of a group should be\<close>

text \<open>The records of one group, and what a sub-total adds to the sum of its group: its
  integer value, or nothing where it is absent or does not parse.\<close>

definition members :: "vote_record list \<Rightarrow> group_key \<Rightarrow> vote_record list" where
  "members rs k = filter (\<lambda>r. group_key r = k) rs"

definition contrib :: "subval \<Rightarrow> int" where
  "contrib v = (case sub_int v of Inr n \<Rightarrow> n | Inl e \<Rightarrow> 0)"

definition subtotal_fields :: "(vote_record \<Rightarrow> subval) list" where
  "subtotal_fields = [early_voting, election_day, provisional]"

definition subtotal_sum :: "(vote_record \<Rightarrow> subval) \<Rightarrow> vote_record list \<Rightarrow> group_key \<Rightarrow> int" where
  "subtotal_sum f rs k = sum_list (map (contrib \<circ> f) (members rs k))"

definition group_vals :: "vote_record list \<Rightarrow> group_key \<Rightarrow> vals" where
  "group_vals rs k =
     (sum_list (map total_votes (members rs k)),
      subtotal_sum early_voting rs k, subtotal_sum election_day rs k,
      subtotal_sum provisional rs k)"

text \<open>The invariant of the loop: after the records \<open>ps\<close> the dict holds one entry per
  group of \<open>ps\<close>, with the sums of that group.\<close>

definition agg_inv :: "agg \<Rightarrow> vote_record list \<Rightarrow> bool" where
  "agg_inv a ps \<longleftrightarrow>
     distinct (map fst a) \<and> fst ` set a = group_key ` set ps \<and>
     (\<forall>k. agg_get a k = group_vals ps k) \<and>
     sum_list (map (fst \<circ> snd) a) = sum_list (map total_votes ps)"

text \<open>The lists of records the aggregator returns on: no sub-total is an infinite
  float (or an integer beyond the floats), and no two keys are unorderable.\<close>

definition sub_ok :: "subval \<Rightarrow> bool" where
  "sub_ok v = (case sub_int v of Inr n \<Rightarrow> True | Inl e \<Rightarrow> e = ValueError \<or> e = TypeError)"

definition record_ok :: "vote_record \<Rightarrow> bool" where
  "record_ok r = (sub_ok (early_voting r) \<and> sub_ok (election_day r) \<and> sub_ok (provisional r))"

definition aggregable :: "vote_record list \<Rightarrow> bool" where
  "aggregable rs =
     (list_all record_ok rs \<and>
      \<not> list_ex (\<lambda>k1. list_ex (unorderable k1) (map group_key rs)) (map group_key rs))"

subsection \<open>Example records\<close>

definition precinct :: "int \<Rightarrow> subval \<Rightarrow> subval \<Rightarrow> vote_record" where
  "precinct v e d =
     \<lparr>county = ''Yavapai'', office = ''Governing Board'', district = '''',
      candidate = ''Jane Doe'', party = Some '''', total_votes = v,
      early_voting = e, election_day = d, provisional = SStr ''''\<rparr>"

definition jane_doe_precincts :: "vote_record list" where
  "jane_doe_precincts =
     [precinct 120 (SStr ''100'') (SStr ''20''), precinct 85 (SStr '''') (SStr ''85''),
      precinct 40 (SStr ''30'') (SStr ''10'')]"

definition jane_doe_aggregate :: vote_record where
  "jane_doe_aggregate = precinct 245 (SInt 130) (SInt 115)"

section \<open>Regular expressions\<close>

text \<open>
  The patterns of \<open>normalize_race_name\<close> are sequences of single characters and
  character classes under the greedy quantifiers \<open>?\<close>, \<open>*\<close> and \<open>+\<close>, with the
  anchors \<open>\b\<close> and \<open>$\<close>, one capturing group and one optional group.  A pattern is
  a flat list of items: \<open>Skip n\<close> opens an optional group made of the next \<open>n\<close>
  items, \<open>CapOpen\<close> and \<open>CapClose\<close> delimit group 1.
\<close>

datatype cclass = Lit char | Space | Digit

datatype quant = One | Opt | Star | Plus

datatype item = Ch cclass quant | Skip nat | CapOpen | CapClose | WordB | EndS

type_synonym regex = "item list"

fun in_class :: "cclass \<Rightarrow> char \<Rightarrow> bool" where
  "in_class (Lit a) c = (c = a)"
| "in_class Space c = is_space c"
| "in_class Digit c = is_digit c"

text \<open>Whether a word character stands at a place: before the start and after the end
  there is none.\<close>

fun word_at :: "char option \<Rightarrow> bool" where
  "word_at None = False"
| "word_at (Some c) = is_word c"

fun next_char :: "string \<Rightarrow> char option" where
  "next_char [] = None"
| "next_char (c # cs) = Some c"

text \<open>The state of group 1: whether it is open, and its text so far.\<close>

type_synonym capture = "bool \<times> string"

fun push :: "capture \<Rightarrow> char \<Rightarrow> capture" where
  "push (opn, txt) c = (opn, if opn then txt @ [c] else txt)"

text \<open>
  \<open>re_match p prev s cap\<close> matches the pattern \<open>p\<close> at the start of \<open>s\<close>, where \<open>prev\<close> is
  the character before \<open>s\<close>.  It backtracks as Python's matcher does: a quantifier
  takes as many characters as it can and gives them back one by one while the rest of
  the pattern fails; an optional group is tried before it is skipped.  The result is
  the text after the match, the last character before it, and group 1.
\<close>

function re_match :: "regex \<Rightarrow> char option \<Rightarrow> string \<Rightarrow> capture
    \<Rightarrow> (string \<times> char option \<times> capture) option" where
  "re_match [] prev s cap = Some (s, prev, cap)"
| "re_match (Ch k One # p) prev s cap =
     (case s of
        [] \<Rightarrow> None
      | c # cs \<Rightarrow> if in_class k c then re_match p (Some c) cs (push cap c) else None)"
| "re_match (Ch k Opt # p) prev s cap =
     (case s of
        [] \<Rightarrow> re_match p prev s cap
      | c # cs \<Rightarrow>
          if in_class k c
          then (case re_match p (Some c) cs (push cap c) of
                  Some r \<Rightarrow> Some r
                | None \<Rightarrow> re_match p prev s cap)
          else re_match p prev s cap)"
| "re_match (Ch k Star # p) prev s cap =
     (case s of
        [] \<Rightarrow> re_match p prev s cap
      | c # cs \<Rightarrow>
          if in_class k c
          then (case re_match (Ch k Star # p) (Some c) cs (push cap c) of
                  Some r \<Rightarrow> Some r
                | None \<Rightarrow> re_match p prev s cap)
          else re_match p prev s cap)"
| "re_match (Ch k Plus # p) prev s cap =
     (case s of
        [] \<Rightarrow> None
      | c # cs \<Rightarrow>
          if in_class k c then re_match (Ch k Star # p) (Some c) cs (push cap c) else None)"
| "re_match (Skip n # p) prev s cap =
     (case re_match p prev s cap of
        Some r \<Rightarrow> Some r
      | None \<Rightarrow> re_match (drop n p) prev s cap)"
| "re_match (CapOpen # p) prev s cap = re_match p prev s (True, [])"
| "re_match (CapClose # p) prev s cap = re_match p prev s (False, snd cap)"
| "re_match (WordB # p) prev s cap =
     (if word_at prev \<noteq> word_at (next_char s) then re_match p prev s cap else None)"
| "re_match (EndS # p) prev s cap =
     (if s = [] \<or> s = [CHR 0x0A] then re_match p prev s cap else None)"
  by pat_completeness auto
termination
  by (relation "measures [\<lambda>(p, prev, s, cap). length p, \<lambda>(p, prev, s, cap). length s]") auto

text \<open>A replacement is made of texts and references to group 1.\<close>

datatype repl = Txt string | Group1

fun expand :: "repl list \<Rightarrow> string \<Rightarrow> string" where
  "expand [] g = []"
| "expand (Txt t # rs) g = t @ expand rs g"
| "expand (Group1 # rs) g = g @ expand rs g"

text \<open>
  \<open>re.sub(p, r, s)\<close>: the matches are looked for from left to right and do not overlap;
  after an empty match the next character is copied and the search goes on behind it.
\<close>

function re_sub_from :: "regex \<Rightarrow> repl list \<Rightarrow> char option \<Rightarrow> string \<Rightarrow> string" where
  "re_sub_from p r prev s =
     (case re_match p prev s (False, []) of
        Some (rest, prev', cap) \<Rightarrow>
          if length rest < length s then expand r (snd cap) @ re_sub_from p r prev' rest
          else expand r (snd cap) @
            (case s of [] \<Rightarrow> [] | c # cs \<Rightarrow> c # re_sub_from p r (Some c) cs)
      | None \<Rightarrow> (case s of [] \<Rightarrow> [] | c # cs \<Rightarrow> c # re_sub_from p r (Some c) cs))"
  by pat_completeness auto
termination
  by (relation "measure (\<lambda>(p, r, prev, s). length s)") auto

declare re_sub_from.simps [simp del]

definition re_sub :: "regex \<Rightarrow> repl list \<Rightarrow> string \<Rightarrow> string" where
  "re_sub p r s = re_sub_from p r None s"

subsection \<open>Writing patterns\<close>

definition lit :: "string \<Rightarrow> regex" where
  "lit s = map (\<lambda>c. Ch (Lit c) One) s"

definition optional :: "regex \<Rightarrow> regex" where
  "optional p = Skip (length p) # p"

definition group1 :: "regex \<Rightarrow> regex" where
  "group1 p = CapOpen # p @ [CapClose]"

abbreviation spaces0 :: item where
  "spaces0 \<equiv> Ch Space Star"

abbreviation spaces1 :: item where
  "spaces1 \<equiv> Ch Space Plus"

abbreviation digits1 :: item where
  "digits1 \<equiv> Ch Digit Plus"

abbreviation opt_dot :: item where
  "opt_dot \<equiv> Ch (Lit (CHR ''.'')) Opt"

text \<open>\<open>\s*\(ELECT\s+\d+\)\<close>, \<open>\s*\(SELECT\s+\d+\)\<close>, \<open>\s*\(VOTE\s+(?:FOR\s+)?\d+\)\<close> and
  \<open>\s*VACANCY$\<close>.\<close>

definition re_elect :: regex where
  "re_elect = [spaces0] @ lit ''(ELECT'' @ [spaces1, digits1] @ lit '')''"

definition re_select :: regex where
  "re_select = [spaces0] @ lit ''(SELECT'' @ [spaces1, digits1] @ lit '')''"

definition re_vote_for :: regex where
  "re_vote_for =
     [spaces0] @ lit ''(VOTE'' @ [spaces1] @ optional (lit ''FOR'' @ [spaces1]) @ [digits1] @ lit '')''"

definition re_vacancy :: regex where
  "re_vacancy = [spaces0] @ lit ''VACANCY'' @ [EndS]"

text \<open>\<open>\bSCH\.?\s*DIST\.?\s*\<close>, \<open>\bS\.D\.\s*\<close>, \<open>\bELEM\.?\s*\<close> and
  \<open>\bSCHOOL DISTRICT\b\<close>.\<close>

definition re_sch_dist :: regex where
  "re_sch_dist = [WordB] @ lit ''SCH'' @ [opt_dot, spaces0] @ lit ''DIST'' @ [opt_dot, spaces0]"

definition re_sd :: regex where
  "re_sd = [WordB] @ lit ''S.D.'' @ [spaces0]"

definition re_elem :: regex where
  "re_elem = [WordB] @ lit ''ELEM'' @ [opt_dot, spaces0]"

definition re_school_district :: regex where
  "re_school_district = [WordB] @ lit ''SCHOOL DISTRICT'' @ [WordB]"

text \<open>\<open>\s*#\s*0*(\d+)\<close>, \<open>\s*NO\.?\s*0*(\d+)\<close>, \<open>\s*DIST\.?\s*0*(\d+)\<close>, \<open>\s+#?\d+\s*$\<close>
  and \<open>\s+\<close>.\<close>

definition zeros_number :: regex where
  "zeros_number = [spaces0, Ch (Lit (CHR ''0'')) Star] @ group1 [digits1]"

definition re_hash_number :: regex where
  "re_hash_number = [spaces0] @ lit ''#'' @ zeros_number"

definition re_no_number :: regex where
  "re_no_number = [spaces0] @ lit ''NO'' @ [opt_dot] @ zeros_number"

definition re_dist_number :: regex where
  "re_dist_number = [spaces0] @ lit ''DIST'' @ [opt_dot] @ zeros_number"

definition re_trailing_number :: regex where
  "re_trailing_number = [spaces1, Ch (Lit (CHR ''#'')) Opt, digits1, spaces0, EndS]"

definition re_spaces :: regex where
  "re_spaces = [spaces1]"

section \<open>The District Resolver\<close>

definition name_prefixes :: "string list" where
  "name_prefixes =
     [''GOVERNING BOARD - '', ''GOVERNING BOARD, '', ''GOVERNING BOARD '',
      ''GOVERNING BOARD 2-YEAR TERM - '', ''GOVERNING BOARD 2-YEAR TERM '',
      ''BOARD MEMBER - '', ''BOARD MEMBER '', ''BD MEMBER '', ''BRD MEMBER '',
      ''SCHOOL BOARD MEMBER '', ''FLORENCE BOARD MEMBER '']"

definition name_suffixes :: "string list" where
  "name_suffixes =
     ['' BOARD MEMBER'', '' - BOARD MEMBER'',
      ''-GBM-4YR'', ''-GBM-2YR'', ''-GBM'',
      '' GOV BRD - 4YR'', '' GOV BRD - 2YR'', '' GOV BRD'',
      '': 4-YEAR TERM'', '': 2-YEAR TERM'', '': 4YR'', '': 2YR'']"

text \<open>\<open>if t.startswith(prefix): t = t[len(prefix):]\<close> and
  \<open>if t.endswith(suffix): t = t[:-len(suffix)]\<close>.\<close>

definition cut_prefix :: "string \<Rightarrow> string \<Rightarrow> string" where
  "cut_prefix t prefix = (if startswith t prefix then drop (length prefix) t else t)"

definition cut_suffix :: "string \<Rightarrow> string \<Rightarrow> string" where
  "cut_suffix t suffix = (if endswith t suffix then take (length t - length suffix) t else t)"

definition normalize_race_name :: "string \<Rightarrow> string" where
  "normalize_race_name text =
     (let t = strip (upper text);
          t = foldl cut_prefix t name_prefixes;
          t = foldl cut_suffix t name_suffixes;
          t = re_sub re_elect [] t;
          t = re_sub re_select [] t;
          t = re_sub re_vote_for [] t;
          t = re_sub re_vacancy [] t;
          t = re_sub re_sch_dist [Txt ''SCHOOL DISTRICT ''] t;
          t = re_sub re_sd [Txt ''SCHOOL DISTRICT ''] t;
          t = re_sub re_elem [Txt ''ELEMENTARY ''] t;
          t = re_sub re_school_district [] t;
          t = re_sub re_hash_number [Txt '' #'', Group1] t;
          t = re_sub re_no_number [Txt '' #'', Group1] t;
          t = re_sub re_dist_number [Txt '' #'', Group1] t;
          t = re_sub re_trailing_number [] t
      in strip (re_sub re_spaces [Txt '' ''] t))"

text \<open>The dict \<open>MANUAL_CTDS_MAP\<close> in its insertion order.  The source lists
  \<open>"PIMA USD"\<close> twice with the same identifier; a dict keeps the first place.\<close>

definition MANUAL_CTDS_MAP :: "(string \<times> string) list" where
  "MANUAL_CTDS_MAP =
     [
      (''ST. JOHNS UNIFIED'', ''4153''), (''ST JOHNS UNIFIED'', ''4153''),
      (''ST. JOHN USD'', ''4153''), (''WINDOW ROCK UNIFIED'', ''4154''),
      (''WINDOW ROCK USD'', ''4154''), (''ROUND VALLEY UNIFIED'', ''4155''),
      (''ROUND VALLEY USD'', ''4155''), (''SANDERS UNIFIED'', ''4156''),
      (''SANDERS USD'', ''4156''), (''GANADO UNIFIED'', ''4157''),
      (''GANADO USD'', ''4157''), (''RED MESA UNIFIED'', ''4159''),
      (''RED MESA USD'', ''4159''), (''CONCHO ELEMENTARY'', ''4160''),
      (''CONCHO ESD'', ''4160''), (''ALPINE ELEMENTARY'', ''4161''),
      (''VERNON ELEMENTARY'', ''4162''), (''VERNON ESD'', ''4162''),
      (''MCNARY ELEMENTARY'', ''4163''), (''MC NARY ELEMENTARY'', ''4163''),
      (''MCNARY ESD'', ''4163''), (''CHINLE UNIFIED'', ''4158''),
      (''TOMBSTONE UNIFIED'', ''4168''), (''USD 68'', ''4168''),
      (''BISBEE UNIFIED'', ''4169''), (''BISBEE USD'', ''4169''),
      (''WILLCOX UNIFIED'', ''4170''), (''WILLCOX USD'', ''4170''),
      (''SAN SIMON UNIFIED'', ''4172''), (''SAN SIMON USD'', ''4172''),
      (''ST. DAVID UNIFIED'', ''4173''), (''ST DAVID UNIFIED'', ''4173''),
      (''ST. DAVID USD'', ''4173''), (''DOUGLAS UNIFIED'', ''4174''),
      (''DOUGLAS USD'', ''4174''), (''SIERRA VISTA UNIFIED'', ''4175''),
      (''SIERRA VISTA USD'', ''4175''), (''APACHE ELEMENTARY'', ''4178''),
      (''PEARCE ELEMENTARY'', ''4186''), (''BENSON UNIFIED'', ''79226''),
      (''BENSON USD'', ''79226''), (''FLAGSTAFF UNIFIED'', ''4192''),
      (''FLAGSTAFF USD'', ''4192''), (''PAGE UNIFIED'', ''4196''),
      (''PAGE USD'', ''4196''), (''TUBA CITY UNIFIED'', ''4197''),
      (''TUBA CITY USD'', ''4197''), (''SEDONA-OAK CREEK'', ''4467''),
      (''SEDONA OAK CREEK'', ''4467''), (''WILLIAMS UNIFIED'', ''4193''),
      (''GRAND CANYON UNIFIED'', ''4194''), (''FREDONIA-MOCCASIN UNIFIED'', ''4195''),
      (''GLOBE UNIFIED'', ''4208''), (''PAYSON UNIFIED'', ''4209''),
      (''SAN CARLOS UNIFIED'', ''4210''), (''HAYDEN-WINKELMAN UNIFIED'', ''4212''),
      (''HAYDEN WINKELMAN UNIFIED'', ''4212''), (''YOUNG ELEMENTARY'', ''4213''),
      (''YOUNG PUBLIC SCHOOL'', ''4213''), (''PINE-STRAWBERRY'', ''4214''),
      (''PINE STRAWBERRY'', ''4214''), (''TONTO BASIN'', ''4215''),
      (''WHITERIVER UNIFIED'', ''4394''), (''WHITERIVER USD'', ''4394''),
      (''MIAMI UNIFIED'', ''4211''), (''SAN CARLOS SCHOOL'', ''4210''),
      (''SAFFORD UNIFIED'', ''4218''), (''SAFFORD USD'', ''4218''),
      (''THATCHER UNIFIED'', ''4219''), (''THATCHER USD'', ''4219''),
      (''PIMA UNIFIED'', ''4220''), (''PIMA USD'', ''4220''),
      (''FORT THOMAS UNIFIED'', ''4221''), (''FT. THOMAS USD'', ''4221''),
      (''FT THOMAS USD'', ''4221''), (''BONITA ELEMENTARY'', ''4224''),
      (''BONITA ESD'', ''4224''), (''BONITA USD'', ''4224''),
      (''SOLOMON ELEMENTARY'', ''4222''), (''SOLOMON ESD'', ''4222''),
      (''AGUA FRIA UNION'', ''4289''), (''AGUA FRIA UHSD'', ''4289''),
      (''ALHAMBRA ESD'', ''4280''), (''ALHAMBRA ELEMENTARY'', ''4280''),
      (''ARLINGTON ESD'', ''4274''), (''ARLINGTON ELEMENTARY'', ''4274''),
      (''AVONDALE ESD'', ''4272''), (''AVONDALE ELEMENTARY'', ''4272''),
      (''BALSZ ESD'', ''4268''), (''BALSZ ELEMENTARY'', ''4268''),
      (''BUCKEYE ESD'', ''4269''), (''BUCKEYE ELEMENTARY'', ''4269''),
      (''BUCKEYE UHSD'', ''4284''), (''BUCKEYE UNION'', ''4284''),
      (''CARTWRIGHT ESD'', ''4282''), (''CARTWRIGHT ELEMENTARY'', ''4282''),
      (''CAVE CREEK USD'', ''4244''), (''CAVE CREEK UNIFIED'', ''4244''),
      (''CHANDLER USD'', ''4242''), (''CHANDLER UNIFIED'', ''4242''),
      (''CREIGHTON ESD'', ''4263''), (''CREIGHTON ELEMENTARY'', ''4263''),
      (''DEER VALLEY USD'', ''4246''), (''DEER VALLEY UNIFIED'', ''4246''),
      (''DYSART USD'', ''4243''), (''DYSART UNIFIED'', ''4243''),
      (''FOUNTAIN HILLS USD'', ''4247''), (''FOUNTAIN HILLS UNIFIED'', ''4247''),
      (''FOWLER ESD'', ''4273''), (''FOWLER ELEMENTARY'', ''4273''),
      (''GILA BEND USD'', ''4238''), (''GILA BEND UNIFIED'', ''4238''),
      (''GILBERT USD'', ''4239''), (''GILBERT UNIFIED'', ''4239''),
      (''GLENDALE ESD'', ''4271''), (''GLENDALE ELEMENTARY'', ''4271''),
      (''GLENDALE UHSD'', ''4285''), (''GLENDALE UNION HIGH'', ''4285''),
      (''HIGLEY USD'', ''4248''), (''HIGLEY UNIFIED'', ''4248''),
      (''ISAAC ESD'', ''4259''), (''ISAAC ELEMENTARY'', ''4259''),
      (''KYRENE ESD'', ''4267''), (''KYRENE ELEMENTARY'', ''4267''),
      (''LAVEEN ESD'', ''4276''), (''LAVEEN ELEMENTARY'', ''4276''),
      (''LIBERTY ESD'', ''4266''), (''LIBERTY ELEMENTARY'', ''4266''),
      (''LITCHFIELD ESD'', ''4281''), (''LITCHFIELD ELEMENTARY'', ''4281''),
      (''LITTLETON ESD'', ''4278''), (''LITTLETON ELEMENTARY'', ''4278''),
      (''MADISON ESD'', ''4270''), (''MADISON ELEMENTARY'', ''4270''),
      (''MESA USD'', ''4235''), (''MESA UNIFIED'', ''4235''),
      (''MORRISTOWN ESD'', ''4251''), (''MURPHY ESD'', ''4265''),
      (''MURPHY ELEMENTARY'', ''4265''), (''NADABURG ESD'', ''4252''),
      (''NADABURG USD'', ''4252''), (''OSBORN ESD'', ''4262''),
      (''OSBORN ELEMENTARY'', ''4262''), (''PALO VERDE ESD'', ''4275''),
      (''PALOMA ESD'', ''4255''), (''PARADISE VALLEY USD'', ''4241''),
      (''PARADISE VALLEY UNIFIED'', ''4241''), (''PARADISE VLLY USD'', ''4241''),
      (''PENDERGAST ESD'', ''4283''), (''PENDERGAST ELEMENTARY'', ''4283''),
      (''PEORIA USD'', ''4237''), (''PEORIA UNIFIED'', ''4237''),
      (''PHOENIX ESD'', ''4256''), (''PHOENIX ELEMENTARY'', ''4256''),
      (''PHOENIX UHSD'', ''4286''), (''PHOENIX UNION HIGH'', ''4286''),
      (''PHOENIX UNION'', ''4286''), (''QUEEN CREEK USD'', ''4245''),
      (''QUEEN CREEK ESD'', ''4245''), (''QUEEN CREEK UNIFIED'', ''4245''),
      (''RIVERSIDE ESD'', ''4257''), (''RIVERSIDE ELEMENTARY'', ''4257''),
      (''ROOSEVELT ESD'', ''4279''), (''ROOSEVELT ELEMENTARY'', ''4279''),
      (''SADDLE MOUNTAIN USD'', ''4254''), (''SADDLE MTN USD'', ''4254''),
      (''SCOTTSDALE USD'', ''4240''), (''SCOTTSDALE UNIFIED'', ''4240''),
      (''SENTINEL ESD'', ''4250''), (''TEMPE ESD'', ''4258''),
      (''TEMPE SCHOOL'', ''4258''), (''TEMPE UHSD'', ''4287''),
      (''TEMPE UNION HIGH'', ''4287''), (''TEMPE UNION'', ''4287''),
      (''TOLLESON ESD'', ''4264''), (''TOLLESON ELEMENTARY'', ''4264''),
      (''TOLLESON UHSD'', ''4288''), (''TOLLESON UNION HIGH'', ''4288''),
      (''UNION ESD'', ''4277''), (''UNION ELEMENTARY'', ''4277''),
      (''WASHINGTON ESD'', ''4260''), (''WASHINGTON ELEMENTARY'', ''4260''),
      (''WICKENBURG USD'', ''4236''), (''WICKENBURG UNIFIED'', ''4236''),
      (''WILSON ESD'', ''4261''), (''WILSON ELEMENTARY'', ''4261''),
      (''MARICOPA UNIFIED'', ''4441''), (''J O COMBS UNIFIED'', ''4445''),
      (''LAKE HAVASU UNIFIED'', ''4368''), (''LAKE HAVASU USD'', ''4368''),
      (''COLORADO CITY UNIFIED'', ''4370''), (''COLORADO CITY USD'', ''4370''),
      (''HACKBERRY ELEMENTARY'', ''4371''), (''HACKBERRY ESD'', ''4371''),
      (''TOPOCK ELEMENTARY'', ''4376''), (''TOPOCK ESD'', ''4376''),
      (''MOHAVE VALLEY ELEMENTARY'', ''4379''), (''VALENTINE ELEMENTARY'', ''4380''),
      (''VALENTINE ESD'', ''4380''), (''KINGMAN UNIFIED'', ''79598''),
      (''KINGMAN USD'', ''79598''), (''KUSD'', ''79598''),
      (''BULLHEAD CITY'', ''4378''), (''COLORADO RIVER UNION HIGH'', ''4381''),
      (''COLORADO RIVER UHSD'', ''4381''), (''CO RIVER UNION HS'', ''4381''),
      (''CRUHSD'', ''4381''), (''CCUSD'', ''4370''),
      (''LHUSD'', ''4368''), (''FMUSD'', ''4379''),
      (''KINGMAN US DIST'', ''79598''), (''LAKE HAVASU US DIST'', ''4368''),
      (''BLUE RIDGE UNIFIED'', ''4397''), (''BLUE RIDGE USD'', ''4397''),
      (''HEBER-OVERGAARD UNIFIED'', ''4392''), (''HEBER/OVERGAARD USD'', ''4392''),
      (''HEBER OVERGAARD'', ''4392''), (''KAYENTA UNIFIED'', ''4396''),
      (''KAYENTA USD'', ''4396''), (''PINON UNIFIED'', ''4390''),
      (''PINON USD'', ''4390''), (''SHOW LOW UNIFIED'', ''4393''),
      (''SHOW LOW USD'', ''4393''), (''WINSLOW UNIFIED'', ''4387''),
      (''WINSLOW USD'', ''4387''), (''SNOWFLAKE UNIFIED'', ''4391''),
      (''SNOWFLAKE USD'', ''4391''), (''HOLBROOK UNIFIED'', ''4389''),
      (''JOSEPH CITY UNIFIED'', ''4388''), (''BOARD MEMBER KAYENTA'', ''4396''),
      (''BOARD MEMBER PINON'', ''4390''), (''BOARD MEMBER SHOW LOW'', ''4393''),
      (''BOARD MEMBER WINSLOW'', ''4387''), (''BOARD MEMBER GLOBE'', ''4208''),
      (''TUCSON UNIFIED'', ''4403''), (''TUCSON USD'', ''4403''),
      (''MARANA UNIFIED'', ''4404''), (''MARANA USD'', ''4404''),
      (''FLOWING WELLS UNIFIED'', ''4405''), (''AMPHITHEATER UNIFIED'', ''4406''),
      (''SUNNYSIDE UNIFIED'', ''4407''), (''TANQUE VERDE UNIFIED'', ''4408''),
      (''AJO UNIFIED'', ''4409''), (''CATALINA FOOTHILLS UNIFIED'', ''4410''),
      (''CATALINA FOOTHILLS'', ''4410''), (''SAHUARITA UNIFIED'', ''4411''),
      (''BABOQUIVARI'', ''4412''), (''BABOQUIVARI SCHOOL'', ''4412''),
      (''VAIL UNIFIED'', ''4413''), (''CONTINENTAL ELEMENTARY'', ''4416''),
      (''ALTAR VALLEY'', ''4418''), (''ALTAR VALLEY ESD'', ''4418''),
      (''APACHE JUNCTION UNIFIED'', ''4443''), (''CASA GRANDE UNION HIGH'', ''4453''),
      (''CASA GRANDE UHSD'', ''4453''), (''COOLIDGE UNIFIED'', ''4442''),
      (''ELOY ELEMENTARY'', ''4448''), (''FLORENCE UNIFIED'', ''4437''),
      (''SACATON ELEMENTARY'', ''4449''), (''SUPERIOR UNIFIED'', ''4440''),
      (''TOLTEC ELEMENTARY'', ''4450''), (''TOLTEC SCHOOL'', ''4450''),
      (''SANTA CRUZ VALLEY UNION HIGH'', ''4454''), (''ORACLE ELEMENTARY'', ''4444''),
      (''RAY UNIFIED'', ''4438''), (''STANFIELD ELEMENTARY'', ''4451''),
      (''PICACHO ELEMENTARY'', ''4452''), (''NOGALES UNIFIED'', ''4457''),
      (''NUSD'', ''4457''), (''BOARD MEMBER USD 1'', ''4457''),
      (''SANTA CRUZ VALLEY UNIFIED'', ''4458''), (''SCV'', ''4458''),
      (''SONOITA ELEMENTARY'', ''4461''), (''SCE'', ''4461''),
      (''SANTA CRUZ ELEMENTARY'', ''4459''), (''BAGDAD UNIFIED'', ''4468''),
      (''BAGDAD USD'', ''4468''), (''HUMBOLDT UNIFIED'', ''4469''),
      (''HUMBOLDT USD'', ''4469''), (''SELIGMAN UNIFIED'', ''4472''),
      (''SELIGMAN USD'', ''4472''), (''YARNELL ELEMENTARY'', ''4485''),
      (''YARNELL ESD'', ''4485''), (''PRESCOTT UNIFIED'', ''4466''),
      (''PRESCOTT USD'', ''4466''), (''CHINO VALLEY UNIFIED'', ''4474''),
      (''CHINO VALLEY USD'', ''4474''), (''CAMP VERDE UNIFIED'', ''4470''),
      (''CAMP VERDE USD'', ''4470''), (''MAYER UNIFIED'', ''4473''),
      (''MAYER USD'', ''4473''), (''CONGRESS ELEMENTARY'', ''4479''),
      (''CONGRESS ESD'', ''4479''), (''CANON ELEMENTARY'', ''4484''),
      (''CANON ESD'', ''4484''), (''KIRKLAND ELEMENTARY'', ''4480''),
      (''KIRKLAND ESD'', ''4480''), (''CLARKDALE-JEROME ELEMENTARY'', ''4486''),
      (''CLARKDALE-JEROME ESD'', ''4486''), (''COTTONWOOD-OAK CREEK ELEMENTARY'', ''4487''),
      (''COTTONWOOD-OAK CREEK ESD'', ''4487''), (''MINGUS UNION HIGH'', ''4488''),
      (''SEDONA-OAK CREEK JUSD'', ''4467''), (''SEDONA-OAK CREEK JOINT USD'', ''4467''),
      (''YUMA ELEMENTARY'', ''4499''), (''SOMERTON ELEMENTARY'', ''4500''),
      (''CRANE ELEMENTARY'', ''4501''), (''GADSDEN ELEMENTARY'', ''4505''),
      (''GADSDEN ESD'', ''4505''), (''YUMA UNION HIGH'', ''4507''),
      (''YUMA UHSD'', ''4507''), (''MOHAWK VALLEY ELEMENTARY'', ''4503''),
      (''ANTELOPE UNION HIGH'', ''4506''), (''ANTELOPE UNION HSD'', ''4506'')
     ]"

text \<open>\<open>for key, ctds in MANUAL_CTDS_MAP.items(): if key in text: return ctds\<close>: the
  identifier of the first fragment of the table that the text contains.\<close>

definition lookup_fragment :: "string \<Rightarrow> string option" where
  "lookup_fragment text =
     map_option snd (find (\<lambda>(key, ctds). contains text key) MANUAL_CTDS_MAP)"

definition texts_to_try :: "string \<Rightarrow> string \<Rightarrow> string list" where
  "texts_to_try office_text district_text =
     (if district_text \<noteq> [] \<and> strip district_text \<noteq> [] then [strip district_text] else []) @
     [strip office_text] @
     (if district_text \<noteq> [] \<and> strip district_text \<noteq> [] then [strip office_text @ '' - '' @ strip district_text]
      else [])"

text \<open>The loop over \<open>texts_to_try\<close>: each text upper-cased, then normalized.\<close>

fun try_texts :: "string list \<Rightarrow> string option" where
  "try_texts [] = None"
| "try_texts (text # texts) =
     (case lookup_fragment (strip (upper text)) of
        Some ctds \<Rightarrow> Some ctds
      | None \<Rightarrow>
          (case lookup_fragment (normalize_race_name text) of
             Some ctds \<Rightarrow> Some ctds
           | None \<Rightarrow> try_texts texts))"

definition combined_text :: "string \<Rightarrow> string \<Rightarrow> string" where
  "combined_text office_text district_text =
     re_sub re_spaces [Txt '' '']
       (strip (replace_char (CHR ''|'') '' '' (upper (office_text @ '' '' @ district_text))))"

definition match_to_ctds :: "string \<Rightarrow> string \<Rightarrow> string \<Rightarrow> string option" where
  "match_to_ctds office_text district_text county_name =
     (case try_texts (texts_to_try office_text district_text) of
        Some ctds \<Rightarrow> Some ctds
      | None \<Rightarrow>
          (case lookup_fragment (combined_text office_text district_text) of
             Some ctds \<Rightarrow> Some ctds
           | None \<Rightarrow> lookup_fragment (normalize_race_name (combined_text office_text district_text))))"

section \<open>The Race Classifier\<close>

definition question_keywords :: "string list" where
  "question_keywords =
     [''QUESTION'', ''PROPOSITION'', ''BOND'', ''OVERRIDE'', ''BUDGET'',
      ''SALE'', ''LEASE'', ''JTED'', ''CAPITAL IMPROV'', ''REORGANIZATION'',
      ''DISTRICT ADDITIONAL ASSISTANCE'', ''MAIN. & OPERATIONS'',
      ''RECALL'', ''REFERENDUM'']"

definition board_keywords :: "string list" where
  "board_keywords =
     [''GOVERNING BOARD'', ''GBM'', ''GOV BRD'', ''BOARD MEMBER'',
      ''BD MEMBER'', ''BRD MEMBER'', ''SCHOOL BOARD'']"

definition district_keywords :: "string list" where
  "district_keywords = [''ESD'', ''USD'', ''UHSD'', ''SCHOOL DIST'', ''S.D.'', ''UNIFIED'']"

definition other_board_keywords :: "string list" where
  "other_board_keywords =
     [''FIRE'', ''WATER'', ''SANITARY'', ''HOSPITAL'', ''COMMUNITY COLLEGE'',
      ''CAWCD'', ''DWID'', ''SANITATION'', ''DOMESTIC WATER'',
      ''PIMA COMMUNITY'', ''PINAL COUNTY COMM'', ''COCHISE COLLEGE'',
      ''NORTHLAND PIONEER'', ''EAST VALLEY INSTITUTE'',
      ''CENTRAL ARIZONA VALLEY INSTITUTE'', ''MCCD'',
      ''ARIZONA CITY'', ''POMERENE WATER'', ''RIM TRAIL'']"

definition seat_keywords :: "string list" where
  "seat_keywords = [''ELECT'', ''SELECT'', ''VOTE FOR'', ''4-YEAR'', ''2-YEAR'', ''4YR'', ''2YR'']"

definition is_school_board_race :: "string \<Rightarrow> string \<Rightarrow> bool" where
  "is_school_board_race office_text district_text =
     (let combined = upper (office_text @ '' '' @ district_text);
          combined_pipe = replace_char (CHR ''|'') '' '' (upper (office_text @ '' '' @ district_text))
      in if contains_any combined question_keywords then False
         else if contains_any combined board_keywords then
           (if contains_any combined other_board_keywords then False else True)
         else if contains_any combined district_keywords \<and>
                 (contains_any combined seat_keywords \<or> match_to_ctds office_text district_text [] \<noteq> None)
           then True
         else if contains_any combined_pipe district_keywords \<and>
                 match_to_ctds office_text district_text [] \<noteq> None then True
         else False)"

section \<open>Metadata rows\<close>

definition skip_values :: "string list" where
  "skip_values =
     [''REGISTERED VOTERS'', ''BALLOTS CAST'', ''BALLOTS CAST BLANK'',
      ''TOTAL VOTES'', ''UNDER VOTE'', ''OVER VOTE'', ''UNDERVOTE'', ''OVERVOTE'',
      ''WRITE-IN TOTALS'', ''WRITE-INS'', ''WRITE IN'', ''WRITE-IN'',
      ''NUMBER OF PRECINCTS'', ''NUMBER OF PRECINCTS FOR RACE'',
      ''NUMBER OF PRECINCTS REPORTING'', ''TIMES COUNTED'',
      ''NO OFFICIAL CANDIDATE'']"

definition is_metadata_row :: "string \<Rightarrow> bool" where
  "is_metadata_row label =
     (let up = strip (upper label)
      in if up \<in> set skip_values then True
         else if startswith up ''TOTAL'' \<or> startswith up ''UNDER '' \<or> startswith up ''OVER ''
           then True
         else if startswith up ''WRITE-IN'' \<or> startswith up ''WRITE IN'' then True
         else if contains up ''TURNOUT'' \<or> contains up ''REGISTERED'' then True
         else False)"

subsection \<open>The order of the resolver's trials\<close>

text \<open>The first text of a list that contains a fragment of the table decides.\<close>

fun first_match :: "string list \<Rightarrow> string option" where
  "first_match [] = None"
| "first_match (t # ts) =
     (case lookup_fragment t of Some ctds \<Rightarrow> Some ctds | None \<Rightarrow> first_match ts)"

text \<open>
  The texts in the order the code tries them: the district, the office and
  \<open>office - district\<close>, each upper-cased and then normalized, and last the upper-cased
  \<open>office district\<close> with its pipes blanked and its white space collapsed, as it is and
  normalized.  The two texts with the district are tried only for a district that is
  not blank.
\<close>

definition trial_order :: "string \<Rightarrow> string \<Rightarrow> string list" where
  "trial_order office_text district_text =
     (let d = strip district_text; off = strip office_text; both = off @ '' - '' @ d;
          joined = combined_text office_text district_text
      in (if d \<noteq> [] then [strip (upper d), normalize_race_name d] else []) @
         [strip (upper off), normalize_race_name off] @
         (if d \<noteq> [] then [strip (upper both), normalize_race_name both] else []) @
         [joined, normalize_race_name joined])"

text \<open>The order the specification words: the three raw texts first, then the three
  normalized ones.\<close>

definition spec_trial_order :: "string \<Rightarrow> string \<Rightarrow> string list" where
  "spec_trial_order office_text district_text =
     (let d = strip district_text; off = strip office_text; both = off @ '' - '' @ d
      in (if d \<noteq> [] then [strip (upper d)] else []) @
         [strip (upper off)] @
         (if d \<noteq> [] then [strip (upper both)] else []) @
         (if d \<noteq> [] then [normalize_race_name d] else []) @
         [normalize_race_name off] @
         (if d \<noteq> [] then [normalize_race_name both] else []))"

section \<open>The Record Extractor\<close>

text \<open>
  The input of \<open>extract_records\<close> is modelled as the rows \<open>csv.reader\<close> yields for the
  text, the header row first.  \<open>csv.DictReader\<close> skips the empty rows, pairs the cells of
  a row with the header's fields (a later field of the same name wins), and gives every
  field that a short row has no cell for the value \<open>None\<close>.  A Python value that is a
  \<open>str\<close> or \<open>None\<close> is a \<open>string option\<close>.
\<close>

type_synonym csv_row = "(string \<times> string option) list"

definition dict_row :: "string list \<Rightarrow> string list \<Rightarrow> csv_row" where
  "dict_row fieldnames cells =
     zip fieldnames (map Some cells) @ map (\<lambda>k. (k, None)) (drop (length cells) fieldnames)"

text \<open>\<open>row.get(key, dflt)\<close>.\<close>

definition row_get :: "csv_row \<Rightarrow> string \<Rightarrow> string \<Rightarrow> string option" where
  "row_get row key dflt = (case map_of (rev row) key of Some v \<Rightarrow> v | None \<Rightarrow> Some dflt)"

text \<open>
  \<open>try: v = int(float(votes))\<close> with \<open>except (ValueError, TypeError): v = 0\<close>.  The float
  of \<open>None\<close> is a TypeError; the integer of an infinite float is an OverflowError, which
  the handler does not catch.
\<close>

definition parse_votes :: "string option \<Rightarrow> py_error + int" where
  "parse_votes votes =
     (case votes of
        None \<Rightarrow> Inr 0
      | Some s \<Rightarrow>
          (case int_float_str s of
             Inr v \<Rightarrow> Inr v
           | Inl e \<Rightarrow> if e = ValueError \<or> e = TypeError then Inr 0 else Inl e))"

text \<open>
  The checks every layout makes on a row, in the source's order: the classifier (the
  concatenation with \<open>None\<close> is a TypeError), the metadata labels (\<open>None.upper()\<close> is an
  AttributeError), the vote count.  A row that passes becomes the record \<open>mk v\<close>;
  \<open>Inr None\<close> is a row that is skipped.
\<close>

definition keep_row :: "string option \<Rightarrow> string option \<Rightarrow> string option \<Rightarrow> string option
    \<Rightarrow> (string \<Rightarrow> string \<Rightarrow> string \<Rightarrow> int \<Rightarrow> vote_record) \<Rightarrow> py_error + vote_record option" where
  "keep_row contest dist cand votes mk =
     (case contest of
        None \<Rightarrow> Inl TypeError
      | Some c \<Rightarrow>
          (case dist of
             None \<Rightarrow> Inl TypeError
           | Some d \<Rightarrow>
               if \<not> is_school_board_race c d then Inr None
               else (case cand of
                  None \<Rightarrow> Inl AttributeError
                | Some n \<Rightarrow>
                    if is_metadata_row n then Inr None
                    else (case parse_votes votes of
                       Inl e \<Rightarrow> Inl e
                     | Inr v \<Rightarrow> if v \<le> 0 then Inr None else Inr (Some (mk c d n v))))))"

fun cell :: "string option \<Rightarrow> subval" where
  "cell None = SNone"
| "cell (Some s) = SStr s"

text \<open>The 2014 Maricopa layout (\<open>contest_name\<close>, \<open>choice_name\<close>, \<open>vote_total\<close>).\<close>

definition maricopa_row :: "string \<Rightarrow> csv_row \<Rightarrow> py_error + vote_record option" where
  "maricopa_row county_name row =
     keep_row (row_get row ''contest_name'' '''') (Some '''') (row_get row ''choice_name'' '''')
       (row_get row ''vote_total'' ''0'')
       (\<lambda>contest d cand v.
          \<lparr>county = county_name, office = contest, district = '''', candidate = cand,
           party = Some '''', total_votes = v, early_voting = SStr '''',
           election_day = SStr '''', provisional = SStr ''''\<rparr>)"

text \<open>The 2014 Yavapai layout (\<open>contesttitle\<close>, \<open>candidate name\<close>, \<open>votes\<close>, \<open>votetype\<close>).\<close>

definition yavapai_row :: "string \<Rightarrow> csv_row \<Rightarrow> py_error + vote_record option" where
  "yavapai_row county_name row =
     (let votetype = row_get row ''votetype'' ''''
      in keep_row (row_get row ''contesttitle'' '''') (Some '''') (row_get row ''candidate name'' '''')
           (row_get row ''votes'' ''0'')
           (\<lambda>contest d cand v.
              \<lparr>county = county_name, office = contest, district = '''', candidate = cand,
               party = row_get row ''party name'' '''', total_votes = v,
               early_voting = SInt (if votetype = Some ''C'' then v else 0),
               election_day = SInt (if votetype = Some ''E'' \<or> votetype = Some ''P'' then v else 0),
               provisional = SInt (if votetype = Some ''A'' then v else 0)\<rparr>))"

text \<open>
  The 2014 standard layout (\<open>race\<close>, \<open>race_id\<close>, \<open>candidate\<close>, \<open>count\<close>).  A row whose
  \<open>candidate_id\<close> reads as an integer from 999990 on is skipped before anything else;
  \<open>int\<close> of \<open>None\<close> or of a text that is no integer is caught.
\<close>

definition summary_candidate_id :: "string option \<Rightarrow> bool" where
  "summary_candidate_id cand_id =
     (case cand_id of
        None \<Rightarrow> False
      | Some s \<Rightarrow> (case int_of_str s of None \<Rightarrow> False | Some i \<Rightarrow> 999990 \<le> i))"

definition standard_2014_row :: "string \<Rightarrow> csv_row \<Rightarrow> py_error + vote_record option" where
  "standard_2014_row county_name row =
     (if summary_candidate_id (row_get row ''candidate_id'' '''') then Inr None
      else keep_row (row_get row ''race'' '''') (Some '''') (row_get row ''candidate'' '''')
             (row_get row ''count'' ''0'')
             (\<lambda>race d cand v.
                \<lparr>county = county_name, office = race, district = '''', candidate = cand,
                 party = Some '''', total_votes = v, early_voting = SStr '''',
                 election_day = SStr '''', provisional = SStr ''''\<rparr>))"

text \<open>
  The 2014 Pinal layout.  Its test repeats the test of the first layout, so the branch
  is never taken; it is kept as the source has it.  \<open>[...][0]\<close> on an empty list is an
  IndexError.
\<close>

definition field_named :: "string list \<Rightarrow> string \<Rightarrow> py_error + string" where
  "field_named fieldnames name =
     (case filter (\<lambda>f. lower f = name) fieldnames of [] \<Rightarrow> Inl IndexError | f # fs \<Rightarrow> Inr f)"

definition pinal_row :: "string \<Rightarrow> string \<Rightarrow> string \<Rightarrow> string \<Rightarrow> csv_row
    \<Rightarrow> py_error + vote_record option" where
  "pinal_row cn_field ch_field vt_field county_name row =
     keep_row (row_get row cn_field '''') (Some '''') (row_get row ch_field '''')
       (row_get row vt_field ''0'')
       (\<lambda>contest d cand v.
          \<lparr>county = county_name, office = contest, district = '''', candidate = cand,
           party = row_get row ''party_name'' '''', total_votes = v,
           early_voting = cell (row_get row ''early_votes'' ''''),
           election_day = cell (row_get row ''polling_place_votes'' ''''),
           provisional = cell (row_get row ''provisional_votes'' '''')\<rparr>)"

text \<open>The standard layout of 2016 to 2024 (\<open>office\<close>, \<open>district\<close>, \<open>candidate\<close>, \<open>party\<close>,
  \<open>votes\<close>).\<close>

definition standard_row :: "string \<Rightarrow> csv_row \<Rightarrow> py_error + vote_record option" where
  "standard_row county_name row =
     keep_row (row_get row ''office'' '''') (row_get row ''district'' '''')
       (row_get row ''candidate'' '''') (row_get row ''votes'' ''0'')
       (\<lambda>off dist cand v.
          \<lparr>county = county_name, office = off, district = dist, candidate = cand,
           party = row_get row ''party'' '''', total_votes = v,
           early_voting = cell (row_get row ''early_voting'' ''''),
           election_day = cell (row_get row ''election_day'' ''''),
           provisional = cell (row_get row ''provisional'' '''')\<rparr>)"

text \<open>The loop over the rows: the first row that raises ends it.\<close>

fun collect :: "('r \<Rightarrow> py_error + vote_record option) \<Rightarrow> 'r list \<Rightarrow> py_error + vote_record list" where
  "collect f [] = Inr []"
| "collect f (r # rs) =
     (case f r of
        Inl e \<Rightarrow> Inl e
      | Inr x \<Rightarrow>
          (case collect f rs of
             Inl e \<Rightarrow> Inl e
           | Inr records \<Rightarrow> Inr (case x of None \<Rightarrow> records | Some v \<Rightarrow> v # records)))"

definition extract_records :: "string list list \<Rightarrow> string \<Rightarrow> int \<Rightarrow> string
    \<Rightarrow> py_error + vote_record list" where
  "extract_records csv_rows county_name year county_lower =
     (case csv_rows of
        [] \<Rightarrow> Inr []
      | fieldnames # body \<Rightarrow>
          if fieldnames = [] then Inr []
          else let fields_lower = map lower fieldnames;
                   rows = map (dict_row fieldnames) (filter (\<lambda>cells. cells \<noteq> []) body)
               in if ''contest_name'' \<in> set fields_lower then collect (maricopa_row county_name) rows
                  else if ''contesttitle'' \<in> set fields_lower then
                    collect (yavapai_row county_name) rows
                  else if ''race'' \<in> set fields_lower \<and> ''race_id'' \<in> set fields_lower then
                    collect (standard_2014_row county_name) rows
                  else if ''contest_name'' \<in> set (map lower fieldnames) then
                    (case field_named fieldnames ''contest_name'' of
                       Inl e \<Rightarrow> Inl e
                     | Inr cn_field \<Rightarrow>
                         (case field_named fieldnames ''choice_name'' of
                            Inl e \<Rightarrow> Inl e
                          | Inr ch_field \<Rightarrow>
                              (case field_named fieldnames ''vote_total'' of
                                 Inl e \<Rightarrow> Inl e
                               | Inr vt_field \<Rightarrow>
                                   collect (pinal_row cn_field ch_field vt_field county_name) rows)))
                  else if ''office'' \<in> set fields_lower then collect (standard_row county_name) rows
                  else Inr [])"

subsection \<open>Example files\<close>

definition standard_header :: "string list" where
  "standard_header =
     [''county'', ''precinct'', ''office'', ''district'', ''candidate'', ''party'', ''votes'',
      ''early_voting'', ''election_day'', ''provisional'']"

definition camp_verde_rows :: "string list list" where
  "camp_verde_rows =
     [standard_header,
      [''Yavapai'', ''P1'', ''Camp Verde USD Governing Board'', '''', ''Jane Doe'', '''', ''120'', ''100'', ''20'', ''''],
      [''Yavapai'', ''P1'', ''Camp Verde USD Governing Board'', '''', ''John Roe'', '''', ''90'', '''', '''', ''''],
      [''Yavapai'', ''P1'', ''Camp Verde USD Governing Board'', '''', ''Write-in'', '''', ''7'', '''', '''', ''''],
      [''Yavapai'', ''P1'', ''Registered Voters'', '''', ''Registered Voters'', '''', ''900'', '''', '''', ''''],
      [''Yavapai'', ''P2'', ''Camp Verde USD Governing Board'', '''', ''Jane Doe'', '''', ''85'', '''', ''85'', ''''],
      [''Yavapai'', ''P2'', ''Camp Verde USD Governing Board'', '''', ''John Roe'', '''', ''0'', '''', '''', ''''],
      [''Yavapai'', ''P2'', ''Camp Verde USD Governing Board'', '''', '' REGISTERED VOTERS '', '''', ''450'', '''', '''', ''''],
      [''Yavapai'', ''P3'', ''Camp Verde USD Governing Board'', '''', ''Jane Doe'', '''', ''40'', ''30'', ''10'', ''''],
      [''Yavapai'', ''P3'', ''Camp Verde USD Governing Board'', '''', ''John Roe'', '''', ''n/a'', '''', '''', '''']]"

definition infinite_votes_rows :: "string list list" where
  "infinite_votes_rows =
     [standard_header,
      [''Yavapai'', ''P1'', ''Camp Verde USD Governing Board'', '''', ''Jane Doe'', '''', ''-inf'', '''', '''', '''']]"

section \<open>The Gap-Fill Merge Engine\<close>

subsection \<open>Configuration\<close>

definition YEARS :: "int list" where
  "YEARS = [2014, 2016, 2018, 2020, 2022, 2024]"

definition ELECTION_DATES :: "(int \<times> string) list" where
  "ELECTION_DATES =
     [(2014, ''2014-11-04''), (2016, ''2016-11-08''), (2018, ''2018-11-06''),
      (2020, ''2020-11-03''), (2022, ''2022-11-08''), (2024, ''2024-11-05'')]"

definition DATE_PREFIXES :: "(int \<times> string) list" where
  "DATE_PREFIXES =
     [(2014, ''20141104''), (2016, ''20161108''), (2018, ''20181106''),
      (2020, ''20201103''), (2022, ''20221108''), (2024, ''20241105'')]"

definition COUNTY_DISPLAY :: "(string \<times> string) list" where
  "COUNTY_DISPLAY =
     [(''apache'', ''Apache''), (''cochise'', ''Cochise''), (''coconino'', ''Coconino''),
      (''gila'', ''Gila''), (''graham'', ''Graham''), (''greenlee'', ''Greenlee''),
      (''la_paz'', ''La Paz''), (''maricopa'', ''Maricopa''), (''mohave'', ''Mohave''),
      (''navajo'', ''Navajo''), (''pima'', ''Pima''), (''pinal'', ''Pinal''),
      (''santa_cruz'', ''Santa Cruz''), (''yavapai'', ''Yavapai''), (''yuma'', ''Yuma'')]"

definition BASE_URL :: string where
  "BASE_URL = ''https://raw.githubusercontent.com/openelections/openelections-data-az/master''"

text \<open>\<open>d[k]\<close> for a key that may be missing.\<close>

definition dict_at :: "('k \<times> 'v) list \<Rightarrow> 'k \<Rightarrow> py_error + 'v" where
  "dict_at d k = (case map_of d k of None \<Rightarrow> Inl KeyError | Some v \<Rightarrow> Inr v)"

definition get_county_url :: "int \<Rightarrow> string \<Rightarrow> py_error + string" where
  "get_county_url year county_lower =
     (case dict_at DATE_PREFIXES year of
        Inl e \<Rightarrow> Inl e
      | Inr prefix \<Rightarrow>
          Inr (if year = 2024 then
                 (let c = (if county_lower = ''la_paz'' then ''la%20paz''
                           else if county_lower = ''santa_cruz'' then ''santa%20cruz''
                           else county_lower)
                  in BASE_URL @ ''/2024/General/'' @ prefix @ ''__az__general__'' @ c @ ''__precinct.csv'')
               else if year = 2014 then
                 BASE_URL @ ''/2014/'' @ prefix @ ''__az__general__'' @ county_lower @ ''__precinct.csv''
               else BASE_URL @ ''/'' @ str_of_int year @ ''/counties/'' @ prefix @
                 ''__az__general__'' @ county_lower @ ''__precinct.csv''))"

text \<open>\<open>s.title()\<close>: a letter after a letter is lower-cased, any other letter
  upper-cased.\<close>

fun title_from :: "bool \<Rightarrow> string \<Rightarrow> string" where
  "title_from after_letter [] = []"
| "title_from after_letter (c # cs) =
     (if after_letter then lower_char c else upper_char c) # title_from (is_alpha c) cs"

definition title :: "string \<Rightarrow> string" where
  "title s = title_from False s"

subsection \<open>The tables\<close>

text \<open>
  A row of the authoritative table and a staged row have the same columns; the model
  keeps the columns that \<open>main\<close> reads or writes.  The cross-reference directory has the
  columns \<open>FIPST\<close>, \<open>LEA_TYPE\<close>, \<open>ST_LEAID\<close>, \<open>LEA_NAME\<close> and \<open>LEAID\<close>.
\<close>

record table_row =
  col_year :: string
  col_election_date :: string
  col_election_type :: string
  col_county :: string
  col_school_district :: string
  col_ctds_id :: string
  col_nces_leaid :: string
  col_ccd_lea_name :: string
  col_district :: string
  col_office :: string
  col_candidate :: string
  col_party :: string
  col_total_votes :: string
  col_early_voting :: string
  col_election_day :: string
  col_provisional :: string
  col_winner :: string
  col_num_precincts :: string

record ccd_row =
  FIPST :: string
  LEA_TYPE :: string
  ST_LEAID :: string
  LEA_NAME :: string
  LEAID :: string

record log_entry =
  log_ctds :: string
  log_year :: int
  log_county :: string
  log_lea_name :: string
  log_n_candidates :: nat

text \<open>What the run prints while it works through the gaps, one event per \<open>print\<close>.\<close>

datatype event =
    GapHeader string int nat
  | SkipDownload
  | NoRaces
  | Counts nat nat
  | Matched "string list"
  | MatchedDistrict string string nat
  | Unmatched nat
  | UnmatchedRace string string

subsection \<open>Load\<close>

text \<open>\<open>str(int(float(s)))\<close>: the form in which identifiers and years are compared.\<close>

definition canon :: "string \<Rightarrow> py_error + string" where
  "canon s = (case int_float_str s of Inl e \<Rightarrow> Inl e | Inr i \<Rightarrow> Inr (str_of_int i))"

text \<open>The pair a row of the table stands for.\<close>

definition row_pair :: "table_row \<Rightarrow> py_error + string \<times> string" where
  "row_pair r =
     (case canon (col_ctds_id r) of
        Inl e \<Rightarrow> Inl e
      | Inr ctds \<Rightarrow> (case canon (col_year r) of Inl e \<Rightarrow> Inl e | Inr year \<Rightarrow> Inr (ctds, year)))"

text \<open>The first loop over the table: \<open>existing_pairs\<close>, a set kept as a list.\<close>

fun load_pairs :: "table_row list \<Rightarrow> py_error + (string \<times> string) list" where
  "load_pairs [] = Inr []"
| "load_pairs (r # rs) =
     (if col_ctds_id r \<noteq> [] then
        (case row_pair r of
           Inl e \<Rightarrow> Inl e
         | Inr pair \<Rightarrow> (case load_pairs rs of Inl e \<Rightarrow> Inl e | Inr pairs \<Rightarrow> Inr (pair # pairs)))
      else load_pairs rs)"

text \<open>\<open>s.replace(a, b)\<close>.\<close>

function replace_str :: "string \<Rightarrow> string \<Rightarrow> string \<Rightarrow> string" where
  "replace_str a b s =
     (if a = [] \<or> s = [] then s
      else if startswith s a then b @ replace_str a b (drop (length a) s)
      else hd s # replace_str a b (tl s))"
  by pat_completeness auto
termination
  by (relation "measure (\<lambda>(a, b, s). length s)") (auto simp: neq_Nil_conv)

declare replace_str.simps [simp del]

text \<open>\<open>ccd_districts\<close>: identifier to \<open>(lea_name, leaid)\<close>.\<close>

definition load_ccd :: "ccd_row list \<Rightarrow> (string \<times> string \<times> string) list" where
  "load_ccd rows =
     foldl (\<lambda>d r. if FIPST r = ''04'' \<and> LEA_TYPE r = ''1''
                   then dict_put d (replace_str ''AZ-'' [] (ST_LEAID r)) (LEA_NAME r, LEAID r)
                   else d) [] rows"

text \<open>\<open>s.add(x)\<close> for a set kept as a list without repetitions, in the order of
  insertion.\<close>

definition set_add :: "'a list \<Rightarrow> 'a \<Rightarrow> 'a list" where
  "set_add xs x = (if x \<in> set xs then xs else xs @ [x])"

text \<open>The second loop over the table: \<open>ctds_county\<close> and \<open>ctds_names\<close>.\<close>

type_synonym district_info = "(string \<times> string) list \<times> (string \<times> string list) list"

fun load_districts :: "table_row list \<Rightarrow> district_info \<Rightarrow> py_error + district_info" where
  "load_districts [] info = Inr info"
| "load_districts (r # rs) (ctds_county, ctds_names) =
     (if col_ctds_id r \<noteq> [] \<and> col_county r \<noteq> [] then
        (case canon (col_ctds_id r) of
           Inl e \<Rightarrow> Inl e
         | Inr ctds \<Rightarrow>
             load_districts rs
               (dict_put ctds_county ctds (col_county r),
                dict_put ctds_names ctds
                  (set_add (dict_get ctds_names ctds []) (col_school_district r))))
      else load_districts rs (ctds_county, ctds_names))"

subsection \<open>Plan\<close>

type_synonym gaps = "((string \<times> int) \<times> string list) list"

definition county_lower_of :: "string \<Rightarrow> string" where
  "county_lower_of county_name = replace_char (CHR '' '') ''_'' (lower county_name)"

text \<open>The loop over the years for one identifier.\<close>

definition add_gaps :: "(string \<times> string) list \<Rightarrow> gaps \<Rightarrow> string \<times> string \<Rightarrow> gaps" where
  "add_gaps existing_pairs gaps_by_county_year entry =
     (case entry of (ctds, county_name) \<Rightarrow>
        if county_name = [] then gaps_by_county_year
        else foldl (\<lambda>g year.
               if (ctds, str_of_int year) \<notin> set existing_pairs
               then dict_put g (county_lower_of county_name, year)
                      (set_add (dict_get g (county_lower_of county_name, year) []) ctds)
               else g) gaps_by_county_year YEARS)"

definition compute_gaps :: "(string \<times> string) list \<Rightarrow> (string \<times> string) list \<Rightarrow> gaps" where
  "compute_gaps existing_pairs ctds_county = foldl (add_gaps existing_pairs) [] ctds_county"

subsection \<open>Execute and materialize\<close>

text \<open>
  The loop over the candidates.  An aggregate whose identifier is among the needed
  ones is kept under it; one whose pair is in the table already is passed over
  (\<open>pass\<close>), and so is one that resolves to any other identifier; one that does not
  resolve is listed as unmatched.
\<close>

type_synonym matched = "(string \<times> vote_record list) list"

definition match_step :: "string list \<Rightarrow> (string \<times> string) list \<Rightarrow> int \<Rightarrow> string
    \<Rightarrow> matched \<times> vote_record list \<Rightarrow> vote_record \<Rightarrow> matched \<times> vote_record list" where
  "match_step needed_ctds existing_pairs year county_display state cand =
     (case state of (matched, unmatched) \<Rightarrow>
        (case match_to_ctds (office cand) (district cand) county_display of
           None \<Rightarrow> (matched, unmatched @ [cand])
         | Some ctds \<Rightarrow>
             if ctds \<noteq> [] \<and> ctds \<in> set needed_ctds
             then (dict_put matched ctds (dict_get matched ctds [] @ [cand]), unmatched)
             else if ctds \<noteq> [] \<and> (ctds, str_of_int year) \<in> set existing_pairs
             then (matched, unmatched)
             else (matched, unmatched)))"

text \<open>\<open>f"{x}.0" if x else ''\<close> for a sub-total of an aggregate and for a string.\<close>

fun fmt_sub :: "subval \<Rightarrow> string" where
  "fmt_sub SNone = []"
| "fmt_sub (SInt v) = (if v \<noteq> 0 then str_of_int v @ ''.0'' else [])"
| "fmt_sub (SStr s) = (if s \<noteq> [] then s @ ''.0'' else [])"

definition make_row :: "int \<Rightarrow> string \<Rightarrow> string \<Rightarrow> string \<Rightarrow> string \<Rightarrow> string \<Rightarrow> string
    \<Rightarrow> vote_record \<Rightarrow> table_row" where
  "make_row year date county_display school_district ctds leaid lea_name cand =
     \<lparr>col_year = str_of_int year @ ''.0'',
      col_election_date = date,
      col_election_type = ''general'',
      col_county = county_display,
      col_school_district = school_district,
      col_ctds_id = ctds @ ''.0'',
      col_nces_leaid = (if leaid \<noteq> [] then leaid @ ''.0'' else []),
      col_ccd_lea_name = lea_name,
      col_district = [],
      col_office = (if district cand \<noteq> [] then office cand @ '' - '' @ district cand
                    else office cand),
      col_candidate = candidate cand,
      col_party = (case party cand of None \<Rightarrow> [] | Some p \<Rightarrow> p),
      col_total_votes = str_of_int (total_votes cand) @ ''.0'',
      col_early_voting = fmt_sub (early_voting cand),
      col_election_day = fmt_sub (election_day cand),
      col_provisional = fmt_sub (provisional cand),
      col_winner = [],
      col_num_precincts = []\<rparr>"

text \<open>
  The rows of one matched identifier.  A pair that is in the table already is passed
  over (the safety check).  The district's name is the longest of the names the table
  has for it, else the directory's; among names of the same length Python takes the
  last one in the order of its set, for which the model has the order of insertion.
\<close>

type_synonym staged = "table_row list \<times> (string \<times> string) list \<times> log_entry list"

definition materialize :: "(string \<times> string) list \<Rightarrow> (string \<times> string \<times> string) list
    \<Rightarrow> (string \<times> string list) list \<Rightarrow> int \<Rightarrow> string \<Rightarrow> string \<times> vote_record list
    \<Rightarrow> py_error + staged" where
  "materialize existing_pairs ccd_districts ctds_names year county_display entry =
     (case entry of (ctds, cand_list) \<Rightarrow>
        if (ctds, str_of_int year) \<in> set existing_pairs then Inr ([], [], [])
        else let (lea_name, leaid) = dict_get ccd_districts ctds ([], []);
                 names = dict_get ctds_names ctds [];
                 school_district = (if names \<noteq> [] then last (sort_key length names) else lea_name)
             in if cand_list = [] then
                  Inr ([], [(ctds, str_of_int year)],
                       [\<lparr>log_ctds = ctds, log_year = year, log_county = county_display,
                         log_lea_name = lea_name, log_n_candidates = 0\<rparr>])
                else (case dict_at ELECTION_DATES year of
                   Inl e \<Rightarrow> Inl e
                 | Inr date \<Rightarrow>
                     Inr (map (make_row year date county_display school_district ctds leaid lea_name)
                            cand_list,
                          [(ctds, str_of_int year)],
                          [\<lparr>log_ctds = ctds, log_year = year, log_county = county_display,
                            log_lea_name = lea_name, log_n_candidates = length cand_list\<rparr>])))"

fun materialize_all :: "(string \<times> vote_record list \<Rightarrow> py_error + staged)
    \<Rightarrow> matched \<Rightarrow> py_error + staged" where
  "materialize_all f [] = Inr ([], [], [])"
| "materialize_all f (entry # entries) =
     (case f entry of
        Inl e \<Rightarrow> Inl e
      | Inr (rows, filled, details) \<Rightarrow>
          (case materialize_all f entries of
             Inl e \<Rightarrow> Inl e
           | Inr (rows', filled', details') \<Rightarrow>
               Inr (rows @ rows', filled @ filled', details @ details')))"

text \<open>What is printed about the matches of one file.\<close>

definition match_events :: "(string \<times> string \<times> string) list \<Rightarrow> matched \<Rightarrow> vote_record list
    \<Rightarrow> event list" where
  "match_events ccd_districts matched unmatched =
     (if matched \<noteq> [] then
        Matched (sort (map fst matched)) #
        map (\<lambda>ctds. MatchedDistrict ctds
               (case map_of ccd_districts ctds of None \<Rightarrow> ''?'' | Some (lea_name, leaid) \<Rightarrow> lea_name)
               (length (dict_get matched ctds [])))
          (sort (map fst matched))
      else []) @
     (if unmatched \<noteq> [] then
        (let races = sort (remdups (map (\<lambda>u. (office u, district u)) unmatched))
         in Unmatched (length races) # map (\<lambda>(off, dist). UnmatchedRace off dist) races)
      else [])"

text \<open>\<open>COUNTY_DISPLAY.get(county_lower, county_lower.title())\<close>.\<close>

definition county_display_of :: "string \<Rightarrow> string" where
  "county_display_of county_lower =
     (case map_of COUNTY_DISPLAY county_lower of Some d \<Rightarrow> d | None \<Rightarrow> title county_lower)"

text \<open>
  One (county, year) unit.  \<open>fetch\<close> stands for the download and \<open>csv.reader\<close>: it gives
  the rows of the file at a URL, or \<open>None\<close> where the download fails or the text is
  empty.
\<close>

definition process_gap :: "(string \<Rightarrow> string list list option) \<Rightarrow> (string \<times> string) list
    \<Rightarrow> (string \<times> string \<times> string) list \<Rightarrow> (string \<times> string list) list
    \<Rightarrow> (string \<times> int) \<times> string list \<Rightarrow> py_error + staged \<times> event list" where
  "process_gap fetch existing_pairs ccd_districts ctds_names gap =
     (case gap of ((county_lower, year), needed_ctds) \<Rightarrow>
        let county_display = county_display_of county_lower;
            header = GapHeader county_display year (length needed_ctds)
        in case get_county_url year county_lower of
             Inl e \<Rightarrow> Inl e
           | Inr url \<Rightarrow>
               (case fetch url of
                  None \<Rightarrow> Inr (([], [], []), [header, SkipDownload])
                | Some csv_rows \<Rightarrow>
                    (case extract_records csv_rows county_display year county_lower of
                       Inl e \<Rightarrow> Inl e
                     | Inr precinct_records \<Rightarrow>
                         if precinct_records = [] then Inr (([], [], []), [header, NoRaces])
                         else (case aggregate_to_candidates precinct_records of
                            Inl e \<Rightarrow> Inl e
                          | Inr candidates \<Rightarrow>
                              (let (matched, unmatched) =
                                     foldl (match_step needed_ctds existing_pairs year county_display) ([], [])
                                       candidates
                               in case materialize_all
                                         (materialize existing_pairs ccd_districts ctds_names
                                            year county_display) matched of
                                    Inl e \<Rightarrow> Inl e
                                  | Inr staged \<Rightarrow>
                                      Inr (staged,
                                           [header, Counts (length precinct_records) (length candidates)] @
                                           match_events ccd_districts matched unmatched))))))"

text \<open>The loop over the gaps, in the order of \<open>sorted(gaps_by_county_year.items())\<close>.\<close>

fun process_gaps :: "((string \<times> int) \<times> string list \<Rightarrow> py_error + staged \<times> event list)
    \<Rightarrow> gaps \<Rightarrow> py_error + staged \<times> event list" where
  "process_gaps f [] = Inr (([], [], []), [])"
| "process_gaps f (gap # gs) =
     (case f gap of
        Inl e \<Rightarrow> Inl e
      | Inr ((rows, filled, details), events) \<Rightarrow>
          (case process_gaps f gs of
             Inl e \<Rightarrow> Inl e
           | Inr ((rows', filled', details'), events') \<Rightarrow>
               Inr ((rows @ rows', filled @ filled', details @ details'), events @ events')))"

text \<open>
  \<open>main\<close>: the staged rows, the pairs filled, the match log, and what was printed
  about the gaps.  \<open>master\<close> is the authoritative table and \<open>ccd\<close> the directory.
\<close>

definition main :: "(string \<Rightarrow> string list list option) \<Rightarrow> table_row list \<Rightarrow> ccd_row list
    \<Rightarrow> py_error + staged \<times> event list" where
  "main fetch master ccd =
     (case load_pairs master of
        Inl e \<Rightarrow> Inl e
      | Inr existing_pairs \<Rightarrow>
          (case load_districts master ([], []) of
             Inl e \<Rightarrow> Inl e
           | Inr (ctds_county, ctds_names) \<Rightarrow>
               process_gaps (process_gap fetch existing_pairs (load_ccd ccd) ctds_names)
                 (sort_key fst (compute_gaps existing_pairs ctds_county))))"

definition new_rows :: "staged \<times> event list \<Rightarrow> table_row list" where
  "new_rows out = fst (fst out)"

definition filled_pairs :: "staged \<times> event list \<Rightarrow> (string \<times> string) list" where
  "filled_pairs out = fst (snd (fst out))"

definition match_details :: "staged \<times> event list \<Rightarrow> log_entry list" where
  "match_details out = snd (snd (fst out))"

definition printed :: "staged \<times> event list \<Rightarrow> event list" where
  "printed out = snd out"

subsection \<open>Example run\<close>

text \<open>
  A table with one district, Camp Verde Unified (4470) in Yavapai County, that has a
  row for 2016 only, the directory entry of the district, and a source that has the
  example file for Yavapai 2018 and nothing else.
\<close>

definition camp_verde_2016 :: table_row where
  "camp_verde_2016 =
     \<lparr>col_year = ''2016.0'', col_election_date = ''2016-11-08'', col_election_type = ''general'',
      col_county = ''Yavapai'', col_school_district = ''Camp Verde Unified School District'',
      col_ctds_id = ''4470.0'', col_nces_leaid = ''401410.0'',
      col_ccd_lea_name = ''Camp Verde Unified District'', col_district = '''',
      col_office = ''Governing Board Member'', col_candidate = ''Ann Poe'', col_party = '''',
      col_total_votes = ''1500.0'', col_early_voting = '''', col_election_day = '''',
      col_provisional = '''', col_winner = '''', col_num_precincts = ''''\<rparr>"

definition camp_verde_ccd :: ccd_row where
  "camp_verde_ccd =
     \<lparr>FIPST = ''04'', LEA_TYPE = ''1'', ST_LEAID = ''AZ-4470'',
      LEA_NAME = ''Camp Verde Unified District'', LEAID = ''401410''\<rparr>"

definition yavapai_2018_url :: string where
  "yavapai_2018_url = BASE_URL @ ''/2018/counties/20181106__az__general__yavapai__precinct.csv''"

definition yavapai_2018_only :: "string \<Rightarrow> string list list option" where
  "yavapai_2018_only url = (if url = yavapai_2018_url then Some camp_verde_rows else None)"

definition staged_row_2018 :: "string \<Rightarrow> string \<Rightarrow> string \<Rightarrow> string \<Rightarrow> table_row" where
  "staged_row_2018 cand votes early eday =
     \<lparr>col_year = ''2018.0'', col_election_date = ''2018-11-06'', col_election_type = ''general'',
      col_county = ''Yavapai'', col_school_district = ''Camp Verde Unified School District'',
      col_ctds_id = ''4470.0'', col_nces_leaid = ''401410.0'',
      col_ccd_lea_name = ''Camp Verde Unified District'', col_district = '''',
      col_office = ''Camp Verde USD Governing Board'', col_candidate = cand, col_party = '''',
      col_total_votes = votes, col_early_voting = early, col_election_day = eday,
      col_provisional = '''', col_winner = '''', col_num_precincts = ''''\<rparr>"

definition camp_verde_staged :: "table_row list" where
  "camp_verde_staged =
     [staged_row_2018 ''Jane Doe'' ''245.0'' ''130.0'' ''115.0'',
      staged_row_2018 ''John Roe'' ''90.0'' '''' '''']"

section \<open>Notions for the properties of the pipeline\<close>

text \<open>A record the extractor may return: its office passes the classifier, its
  candidate label is no metadata label, its vote count is positive.\<close>

definition good_record :: "vote_record \<Rightarrow> bool" where
  "good_record r \<longleftrightarrow>
     is_school_board_race (office r) (district r) \<and> \<not> is_metadata_row (candidate r) \<and>
     0 < total_votes r"

text \<open>An identifier or a year in the form in which the engine compares them: decimal
  digits without a leading zero (at most fifteen, so that the float is exact).\<close>

definition canonical_key :: "string \<Rightarrow> bool" where
  "canonical_key s \<longleftrightarrow> s \<noteq> [] \<and> list_all is_digit s \<and> hd s \<noteq> CHR ''0'' \<and> length s \<le> 15"

text \<open>
  The gaps of the Plan step: the identifier \<open>c\<close> is missing for the county \<open>cl\<close> and the
  year \<open>y\<close> when the table gives \<open>c\<close> a county that reads \<open>cl\<close>, \<open>y\<close> is an election
  year, and the pair \<open>(c, y)\<close> is not in the table.
\<close>

definition gap_member :: "(string \<times> string) list \<Rightarrow> (string \<times> string) list
    \<Rightarrow> string \<Rightarrow> int \<Rightarrow> string \<Rightarrow> bool" where
  "gap_member existing_pairs ctds_county cl y c \<longleftrightarrow>
     (\<exists>county_name. (c, county_name) \<in> set ctds_county \<and> county_name \<noteq> [] \<and>
        county_lower_of county_name = cl) \<and>
     y \<in> set YEARS \<and> (c, str_of_int y) \<notin> set existing_pairs"

text \<open>The identifiers an event names.\<close>

fun event_ctds :: "event \<Rightarrow> string list" where
  "event_ctds (Matched cs) = cs"
| "event_ctds (MatchedDistrict c name n) = [c]"
| "event_ctds e = []"

subsection \<open>More example data\<close>

definition camp_verde_records :: "vote_record list" where
  "camp_verde_records =
     [\<lparr>county = ''Yavapai'', office = ''Camp Verde USD Governing Board'', district = '''',
       candidate = ''Jane Doe'', party = Some '''', total_votes = 120,
       early_voting = SStr ''100'', election_day = SStr ''20'', provisional = SStr ''''\<rparr>,
      \<lparr>county = ''Yavapai'', office = ''Camp Verde USD Governing Board'', district = '''',
       candidate = ''John Roe'', party = Some '''', total_votes = 90,
       early_voting = SStr '''', election_day = SStr '''', provisional = SStr ''''\<rparr>,
      \<lparr>county = ''Yavapai'', office = ''Camp Verde USD Governing Board'', district = '''',
       candidate = ''Jane Doe'', party = Some '''', total_votes = 85,
       early_voting = SStr '''', election_day = SStr ''85'', provisional = SStr ''''\<rparr>,
      \<lparr>county = ''Yavapai'', office = ''Camp Verde USD Governing Board'', district = '''',
       candidate = ''Jane Doe'', party = Some '''', total_votes = 40,
       early_voting = SStr ''30'', election_day = SStr ''10'', provisional = SStr ''''\<rparr>]"

definition camp_verde_aggregates :: "vote_record list" where
  "camp_verde_aggregates =
     [\<lparr>county = ''Yavapai'', office = ''Camp Verde USD Governing Board'', district = '''',
       candidate = ''Jane Doe'', party = Some '''', total_votes = 245,
       early_voting = SInt 130, election_day = SInt 115, provisional = SStr ''''\<rparr>,
      \<lparr>county = ''Yavapai'', office = ''Camp Verde USD Governing Board'', district = '''',
       candidate = ''John Roe'', party = Some '''', total_votes = 90,
       early_voting = SStr '''', election_day = SStr '''', provisional = SStr ''''\<rparr>]"

text \<open>A table in which Camp Verde (4470) has its row for 2018 and Prescott (4466), of
  the same county, has a row for 2016 only: Yavapai 2018 is a gap of Prescott's.\<close>

definition camp_verde_2018 :: table_row where
  "camp_verde_2018 = camp_verde_2016\<lparr>col_year := ''2018.0'', col_election_date := ''2018-11-06''\<rparr>"

definition prescott_2016 :: table_row where
  "prescott_2016 =
     camp_verde_2016\<lparr>col_school_district := ''Prescott Unified District'',
       col_ctds_id := ''4466.0'', col_nces_leaid := ''406730.0'',
       col_ccd_lea_name := ''Prescott Unified District''\<rparr>"

section \<open>Properties of the Candidate Aggregator\<close>

lemma map_of_dict_put: "map_of (dict_put d k v) = (map_of d)(k \<mapsto> v)"
  by (induction d k v rule: dict_put.induct) (auto simp: fun_eq_iff)

lemma dict_get_dict_put:
  "dict_get (dict_put d k v) k' dflt = (if k' = k then v else dict_get d k' dflt)"
  by (simp add: dict_get_def map_of_dict_put)

lemma agg_get_dict_put: "agg_get (dict_put a k v) k' = (if k' = k then v else agg_get a k')"
  by (simp add: agg_get_def dict_get_dict_put)

lemma keys_dict_put:
  "map fst (dict_put d k v) = (if k \<in> fst ` set d then map fst d else map fst d @ [k])"
  by (induction d k v rule: dict_put.induct) auto

lemma sum_dict_put:
  "sum_list (map (fst \<circ> snd) (dict_put a k v)) =
     sum_list (map (fst \<circ> snd) a) - fst (agg_get a k) + fst v"
  by (induction a k v rule: dict_put.induct) (auto simp: agg_get_def dict_get_def)

lemma add_field_Inr: "add_field v acc = Inr acc' \<Longrightarrow> acc' = acc + contrib v"
  by (auto simp: add_field_def contrib_def split: sum.splits if_splits)

lemma add_field_ok: "(\<exists>acc'. add_field v acc = Inr acc') = sub_ok v"
  by (auto simp: add_field_def sub_ok_def split: sum.splits)

lemma members_snoc:
  "members (ps @ [r]) k = (if group_key r = k then members ps k @ [r] else members ps k)"
  by (simp add: members_def)

lemma group_vals_snoc:
  "group_vals (ps @ [r]) k =
     (if group_key r = k
      then (case group_vals ps k of (t, e, d, p) \<Rightarrow>
              (t + total_votes r, e + contrib (early_voting r),
               d + contrib (election_day r), p + contrib (provisional r)))
      else group_vals ps k)"
  by (simp add: group_vals_def subtotal_sum_def members_snoc)

lemma agg_step_inv:
  assumes "agg_step r a = Inr a'" and "agg_inv a ps"
  shows "agg_inv a' (ps @ [r])"
proof -
  obtain t e d p where g: "agg_get a (group_key r) = (t, e, d, p)"
    by (metis prod_cases4)
  from assms(1) g obtain e' d' p' where
    fe: "add_field (early_voting r) e = Inr e'" and
    fd: "add_field (election_day r) d = Inr d'" and
    fp: "add_field (provisional r) p = Inr p'" and
    a': "a' = dict_put a (group_key r) (t + total_votes r, e', d', p')"
    by (auto simp: agg_step_def split: sum.splits)
  note vs = add_field_Inr[OF fe] add_field_Inr[OF fd] add_field_Inr[OF fp]
  from assms(2) have dist: "distinct (map fst a)"
    and keys: "fst ` set a = group_key ` set ps"
    and get: "\<And>k. agg_get a k = group_vals ps k"
    and sm: "sum_list (map (fst \<circ> snd) a) = sum_list (map total_votes ps)"
    by (auto simp: agg_inv_def)
  have "distinct (map fst a')"
    using dist by (simp add: a' keys_dict_put)
  moreover have "fst ` set a' = group_key ` set (ps @ [r])"
  proof -
    have "set (map fst a') = insert (group_key r) (set (map fst a))"
      by (cases "group_key r \<in> fst ` set a") (simp_all add: a' keys_dict_put insert_absorb)
    then show ?thesis using keys by auto
  qed
  moreover have "\<forall>k. agg_get a' k = group_vals (ps @ [r]) k"
    using g get vs by (auto simp: a' agg_get_dict_put group_vals_snoc)
  moreover have "sum_list (map (fst \<circ> snd) a') = sum_list (map total_votes (ps @ [r]))"
    using sm g by (simp add: a' sum_dict_put)
  ultimately show ?thesis by (simp add: agg_inv_def)
qed

lemma agg_loop_inv:
  "agg_loop rs a = Inr a' \<Longrightarrow> agg_inv a ps \<Longrightarrow> agg_inv a' (ps @ rs)"
proof (induction rs arbitrary: a ps)
  case Nil
  then show ?case by simp
next
  case (Cons r rs)
  from Cons.prems(1) obtain a1 where s: "agg_step r a = Inr a1" and l: "agg_loop rs a1 = Inr a'"
    by (auto split: sum.splits)
  from Cons.IH[OF l agg_step_inv[OF s Cons.prems(2)]] show ?case by simp
qed

lemma agg_inv_empty: "agg_inv [] []"
  by (simp add: agg_inv_def agg_get_def dict_get_def group_vals_def subtotal_sum_def members_def)

lemma agg_step_ok: "(\<exists>a'. agg_step r a = Inr a') = record_ok r"
proof -
  obtain t e d p where g: "agg_get a (group_key r) = (t, e, d, p)"
    by (metis prod_cases4)
  show ?thesis
    using add_field_ok[of "early_voting r" e] add_field_ok[of "election_day r" d]
      add_field_ok[of "provisional r" p]
    by (auto simp: agg_step_def record_ok_def g split: sum.splits)
qed

lemma agg_loop_ok: "(\<exists>a'. agg_loop rs a = Inr a') = list_all record_ok rs"
proof (induction rs arbitrary: a)
  case Nil
  then show ?case by simp
next
  case (Cons r rs)
  show ?case
  proof (cases "agg_step r a")
    case (Inl x)
    then have "\<not> record_ok r" using agg_step_ok[of r a] by auto
    with Inl show ?thesis by simp
  next
    case (Inr a1)
    then have "record_ok r" using agg_step_ok[of r a] by auto
    with Inr Cons.IH[of a1] show ?thesis by simp
  qed
qed

lemma sorted_items_Inr:
  "sorted_items a = Inr items \<Longrightarrow> mset items = mset a"
  by (auto simp: sorted_items_def split: if_splits)

lemma group_key_result_of: "group_key (result_of (k, v)) = k"
  by (cases k; cases v) (simp add: group_key_def)

lemma total_votes_result_of: "total_votes (result_of (k, v)) = fst v"
  by (cases k; cases v) simp

lemma agg_inv_entry:
  assumes "agg_inv a ps" and "(k, v) \<in> set a"
  shows "v = group_vals ps k"
proof -
  from assms have "map_of a k = Some v"
    by (simp add: agg_inv_def)
  then have "agg_get a k = v" by (simp add: agg_get_def dict_get_def)
  moreover from assms(1) have "agg_get a k = group_vals ps k"
    unfolding agg_inv_def by blast
  ultimately show ?thesis by simp
qed

lemma aggregate_items:
  assumes "aggregate_to_candidates rs = Inr aggs"
  obtains a where "agg_inv a rs" and "mset aggs = image_mset result_of (mset a)"
proof -
  from assms obtain a items where l: "agg_loop rs [] = Inr a"
    and s: "sorted_items a = Inr items" and r: "aggs = map result_of items"
    by (auto simp: aggregate_to_candidates_def split: sum.splits)
  from agg_loop_inv[OF l agg_inv_empty] have "agg_inv a rs" by simp
  moreover have "mset aggs = image_mset result_of (mset a)"
    using sorted_items_Inr[OF s] r by simp
  ultimately show ?thesis using that by blast
qed

lemma aggregate_member:
  assumes "aggregate_to_candidates rs = Inr aggs" and "x \<in> set aggs"
  shows "\<exists>k. group_key x = k \<and> x = result_of (k, group_vals rs k)"
proof -
  from assms(1) obtain a where inv: "agg_inv a rs"
    and m: "mset aggs = image_mset result_of (mset a)"
    by (rule aggregate_items)
  from m have "set aggs = result_of ` set a"
    by (metis set_image_mset set_mset_mset)
  with assms(2) obtain k v where kv: "(k, v) \<in> set a" and x: "x = result_of (k, v)"
    by auto
  from agg_inv_entry[OF inv kv] x show ?thesis
    by (simp add: group_key_result_of)
qed

lemma aggregate_keys:
  assumes "aggregate_to_candidates rs = Inr aggs"
  shows "distinct (map group_key aggs) \<and> set (map group_key aggs) = group_key ` set rs"
proof -
  from assms obtain a where inv: "agg_inv a rs"
    and m: "mset aggs = image_mset result_of (mset a)"
    by (rule aggregate_items)
  have "mset (map group_key aggs) = image_mset group_key (image_mset result_of (mset a))"
    using m by (metis mset_map)
  also have "\<dots> = image_mset fst (mset a)"
    unfolding multiset.map_comp
    by (rule image_mset_cong) (auto simp: group_key_def)
  also have "\<dots> = mset (map fst a)" by simp
  finally have e: "mset (map group_key aggs) = mset (map fst a)" .
  from inv have "distinct (map fst a)" and "set (map fst a) = group_key ` set rs"
    by (auto simp: agg_inv_def)
  with e show ?thesis
    by (metis mset_eq_imp_distinct_iff mset_eq_setD)
qed

lemma aggregate_sum:
  assumes "aggregate_to_candidates rs = Inr aggs"
  shows "sum_list (map total_votes aggs) = sum_list (map total_votes rs)"
proof -
  from assms obtain a where inv: "agg_inv a rs"
    and m: "mset aggs = image_mset result_of (mset a)"
    by (rule aggregate_items)
  have "sum_list (map total_votes aggs) = sum_mset (image_mset total_votes (mset aggs))"
    by (metis mset_map sum_mset_sum_list)
  also have "\<dots> = sum_mset (image_mset (fst \<circ> snd) (mset a))"
    unfolding m multiset.map_comp
    by (rule arg_cong[where f = sum_mset], rule image_mset_cong)
      (auto simp: total_votes_result_of)
  also have "\<dots> = sum_list (map (fst \<circ> snd) a)"
    by (metis mset_map sum_mset_sum_list)
  finally show ?thesis using inv by (simp add: agg_inv_def)
qed

lemma unorderable_keys:
  "list_ex (\<lambda>k1. list_ex (unorderable k1) ks) ks = (\<exists>k1\<in>set ks. \<exists>k2\<in>set ks. unorderable k1 k2)"
  by (simp add: list_ex_iff)

lemma aggregate_returns:
  "(\<exists>aggs. aggregate_to_candidates rs = Inr aggs) = aggregable rs"
proof (cases "agg_loop rs []")
  case (Inl x)
  then have "\<not> list_all record_ok rs" using agg_loop_ok[of rs "[]"] by simp
  with Inl show ?thesis by (simp add: aggregate_to_candidates_def aggregable_def)
next
  case (Inr a)
  then have ok: "list_all record_ok rs" using agg_loop_ok[of rs "[]"] by auto
  from agg_loop_inv[OF Inr agg_inv_empty] have "set (map fst a) = set (map group_key rs)"
    by (simp add: agg_inv_def)
  then have "list_ex (\<lambda>k1. list_ex (unorderable k1) (map fst a)) (map fst a) =
      list_ex (\<lambda>k1. list_ex (unorderable k1) (map group_key rs)) (map group_key rs)"
    unfolding unorderable_keys by simp
  then show ?thesis
    using Inr ok by (auto simp: aggregate_to_candidates_def aggregable_def sorted_items_def)
qed

lemma sum_list_zeros: "\<forall>x\<in>set xs. x = 0 \<Longrightarrow> sum_list xs = (0::int)"
  by (induction xs) simp_all

lemma contrib_falsy: "\<not> truthy v \<Longrightarrow> contrib v = 0"
  by (cases v) (simp_all add: contrib_def)

text \<open>
  Claim C2 (aggregation correctness).  Whenever the aggregator returns, the total votes
  of the aggregates add up to the total votes of the records it was given, there is
  exactly one aggregate per group \<open>(county, office, district, candidate, party)\<close> of the
  records, and the total votes of each aggregate are the exact sum over the records of
  its group.  The aggregator returns on every list of records that is \<open>aggregable\<close>.
\<close>

theorem aggregation_correctness:
  "(aggregable rs \<longrightarrow> (\<exists>aggs. aggregate_to_candidates rs = Inr aggs)) \<and>
   (\<forall>aggs. aggregate_to_candidates rs = Inr aggs \<longrightarrow>
      sum_list (map total_votes aggs) = sum_list (map total_votes rs) \<and>
      distinct (map group_key aggs) \<and>
      set (map group_key aggs) = group_key ` set rs \<and>
      (\<forall>a\<in>set aggs.
         total_votes a = sum_list (map total_votes (members rs (group_key a)))))"
proof (intro conjI allI impI ballI)
  assume "aggregable rs"
  then show "\<exists>aggs. aggregate_to_candidates rs = Inr aggs"
    by (simp add: aggregate_returns)
next
  fix aggs assume r: "aggregate_to_candidates rs = Inr aggs"
  show "sum_list (map total_votes aggs) = sum_list (map total_votes rs)"
    by (rule aggregate_sum[OF r])
  show "distinct (map group_key aggs)"
    using aggregate_keys[OF r] by simp
  show "set (map group_key aggs) = group_key ` set rs"
    using aggregate_keys[OF r] by simp
  fix a assume "a \<in> set aggs"
  from aggregate_member[OF r this]
  have "a = result_of (group_key a, group_vals rs (group_key a))" by auto
  then have "total_votes a = fst (group_vals rs (group_key a))"
    by (metis total_votes_result_of)
  then show "total_votes a = sum_list (map total_votes (members rs (group_key a)))"
    by (simp add: group_vals_def)
qed

theorem aggregation_correctness_witness:
  "aggregable jane_doe_precincts \<and>
   aggregate_to_candidates jane_doe_precincts = Inr [jane_doe_aggregate] \<and>
   sum_list (map total_votes [jane_doe_aggregate]) = sum_list (map total_votes jane_doe_precincts) \<and>
   total_votes jane_doe_aggregate =
     sum_list (map total_votes (members jane_doe_precincts (group_key jane_doe_aggregate))) \<and>
   total_votes jane_doe_aggregate = 245"
proof -
  have a: "aggregable jane_doe_precincts" by code_simp
  have e: "aggregate_to_candidates jane_doe_precincts = Inr [jane_doe_aggregate]" by code_simp
  have t: "total_votes jane_doe_aggregate = 245"
    by (simp add: jane_doe_aggregate_def precinct_def)
  from aggregation_correctness[of jane_doe_precincts] a e t show ?thesis by simp
qed

text \<open>
  Claim C4 (sub-total absence semantics), as the code has it.  Each vote-method
  sub-total of an aggregate is the sum of what the records of its group contribute (the
  integer value of the sub-total, nothing where it is absent or does not parse) when
  that sum is positive, and the absent marker \<open>''\<close> otherwise; in particular it is absent
  when no record of the group reported it.  A sum of zero is reported as absent too.
\<close>

theorem subtotal_positive_sum:
  assumes "aggregate_to_candidates rs = Inr aggs" and "a \<in> set aggs"
    and "f \<in> set subtotal_fields"
  shows "f a = (if 0 < subtotal_sum f rs (group_key a)
                then SInt (subtotal_sum f rs (group_key a)) else SStr []) \<and>
         ((\<forall>r\<in>set (members rs (group_key a)). \<not> truthy (f r)) \<longrightarrow> f a = SStr [])"
proof -
  from aggregate_member[OF assms(1,2)]
  have a: "a = result_of (group_key a, group_vals rs (group_key a))" by auto
  obtain c off dist cand pty where k: "group_key a = (c, off, dist, cand, pty)"
    by (metis prod_cases5)
  have "early_voting a = sub_out (subtotal_sum early_voting rs (group_key a))"
    "election_day a = sub_out (subtotal_sum election_day rs (group_key a))"
    "provisional a = sub_out (subtotal_sum provisional rs (group_key a))"
    by (subst a, simp add: k group_vals_def)+
  with assms(3) have e: "f a = sub_out (subtotal_sum f rs (group_key a))"
    by (auto simp: subtotal_fields_def)
  have "f a = SStr []" if "\<forall>r\<in>set (members rs (group_key a)). \<not> truthy (f r)"
  proof -
    from that have "\<forall>x\<in>set (map (contrib \<circ> f) (members rs (group_key a))). x = 0"
      by (auto simp: contrib_falsy)
    then have "subtotal_sum f rs (group_key a) = 0"
      unfolding subtotal_sum_def by (rule sum_list_zeros)
    with e show ?thesis by (simp add: sub_out_def)
  qed
  with e show ?thesis by (simp add: sub_out_def)
qed

theorem subtotal_positive_sum_witness:
  "aggregate_to_candidates jane_doe_precincts = Inr [jane_doe_aggregate] \<and>
   subtotal_sum early_voting jane_doe_precincts (group_key jane_doe_aggregate) = 130 \<and>
   early_voting jane_doe_aggregate = SInt 130 \<and>
   list_all (\<lambda>r. \<not> truthy (provisional r)) (members jane_doe_precincts (group_key jane_doe_aggregate)) \<and>
   provisional jane_doe_aggregate = SStr []"
proof -
  have e: "aggregate_to_candidates jane_doe_precincts = Inr [jane_doe_aggregate]" by code_simp
  have s: "subtotal_sum early_voting jane_doe_precincts (group_key jane_doe_aggregate) = 130"
    by code_simp
  have n: "list_all (\<lambda>r. \<not> truthy (provisional r))
      (members jane_doe_precincts (group_key jane_doe_aggregate))"
    by code_simp
  have m: "jane_doe_aggregate \<in> set [jane_doe_aggregate]" by simp
  have f: "early_voting \<in> set subtotal_fields" and g: "provisional \<in> set subtotal_fields"
    by (simp_all add: subtotal_fields_def)
  from subtotal_positive_sum[OF e m f] s
  have ev: "early_voting jane_doe_aggregate = SInt 130" by simp
  from subtotal_positive_sum[OF e m g] n
  have pv: "provisional jane_doe_aggregate = SStr []"
    unfolding list_all_iff by blast
  from e s n ev pv show ?thesis by simp
qed

text \<open>
  Claim C4 as the specification words it fails: a record that reports an early-voting
  sub-total of zero (the cell \<open>0\<close>) gives an aggregate whose early-voting sub-total is the
  absent marker, although a member of the group reported it.
\<close>

theorem subtotal_zero_counterexample:
  "aggregate_to_candidates [precinct 120 (SStr ''0'') (SStr ''120'')] =
     Inr [precinct 120 (SStr '''') (SInt 120)] \<and>
   truthy (early_voting (precinct 120 (SStr ''0'') (SStr ''120''))) \<and>
   early_voting (precinct 120 (SStr '''') (SInt 120)) = SStr ''''"
  by code_simp

section \<open>Properties of the District Resolver and the Race Classifier\<close>

lemma strip_Nil: "strip [] = []"
  by (simp add: strip_def lstrip_def rstrip_def)

lemma first_match_append:
  "first_match (xs @ ys) = (case first_match xs of Some c \<Rightarrow> Some c | None \<Rightarrow> first_match ys)"
  by (induction xs) (auto split: option.splits)

lemma try_texts_first_match:
  "try_texts ts = first_match (concat (map (\<lambda>t. [strip (upper t), normalize_race_name t]) ts))"
  by (induction ts) (auto split: option.splits)

lemma find_Some_member: "find P xs = Some x \<Longrightarrow> x \<in> set xs \<and> P x"
  by (induction xs) (auto split: if_splits)

lemma lookup_fragment_Some:
  "lookup_fragment t = Some ctds \<Longrightarrow>
     \<exists>key. (key, ctds) \<in> set MANUAL_CTDS_MAP \<and> contains t key"
  unfolding lookup_fragment_def
  by (auto dest!: find_Some_member)

lemma lookup_fragment_None:
  "(lookup_fragment t = None) = (\<forall>(key, ctds)\<in>set MANUAL_CTDS_MAP. \<not> contains t key)"
  unfolding lookup_fragment_def
  by (auto simp: find_None_iff)

text \<open>
  Claim C5 (classifier precision on fixtures).  The four literal office/district pairs
  are classified as the specification says; the last one has no seat-count marker and
  is accepted because its text resolves to the district 4470.
\<close>

theorem classifier_fixtures:
  "is_school_board_race ''GOVERNING BOARD MEMBER'' ''CAMP VERDE USD #28'' = True \<and>
   is_school_board_race ''BOND QUESTION'' ''CAMP VERDE USD #28'' = False \<and>
   is_school_board_race ''FIRE DISTRICT BOARD'' '''' = False \<and>
   is_school_board_race ''CAMP VERDE USD #28'' '''' = True \<and>
   contains_any (upper (''CAMP VERDE USD #28'' @ '' '' @ '''')) seat_keywords = False \<and>
   match_to_ctds ''CAMP VERDE USD #28'' '''' '''' = Some ''4470''"
  by code_simp

text \<open>
  Claim C7 (resolver trial order), as the code has it.  The resolver returns the
  identifier of the first text of \<open>trial_order\<close> that contains a fragment of the table:
  each candidate text is tried upper-cased and then normalized before the next
  candidate text is tried.  Within one text the first fragment in the order of the
  table decides.
\<close>

theorem resolver_trial_order:
  "match_to_ctds office_text district_text county_name =
     first_match (trial_order office_text district_text)"
  by (simp add: match_to_ctds_def trial_order_def texts_to_try_def try_texts_first_match
      first_match_append Let_def strip_Nil split: option.splits)

text \<open>
  Claim C7 as the specification words it fails: for the office \<open>MESA USD\<close> and the
  district \<open>ALPINE ELEM.\<close> the normalized district is tried before the raw office, and
  the resolver returns 4161, not the 4235 that the raw office text contains.
\<close>

theorem resolver_order_counterexample:
  "match_to_ctds ''MESA USD'' ''ALPINE ELEM.'' ''Maricopa'' = Some ''4161'' \<and>
   first_match (spec_trial_order ''MESA USD'' ''ALPINE ELEM.'') = Some ''4235''"
  by code_simp

text \<open>
  Claim C10 (county independence).  The resolver never reads its county argument: the
  same office and district texts resolve alike for any two counties.
\<close>

theorem county_independence:
  "match_to_ctds office_text district_text c1 = match_to_ctds office_text district_text c2"
  by (simp add: match_to_ctds_def)

section \<open>Properties of the Record Extractor\<close>

lemma keep_row_Some:
  assumes "keep_row contest dist cand votes mk = Inr (Some r)"
  obtains c d n v where "contest = Some c" "dist = Some d" "cand = Some n"
    "is_school_board_race c d" "\<not> is_metadata_row n" "parse_votes votes = Inr v" "0 < v"
    "r = mk c d n v"
  using assms unfolding keep_row_def
  by (auto split: option.splits if_splits sum.splits)

lemma maricopa_row_good: "maricopa_row county_name row = Inr (Some r) \<Longrightarrow> good_record r"
  unfolding maricopa_row_def by (erule keep_row_Some) (simp add: good_record_def)

lemma yavapai_row_good: "yavapai_row county_name row = Inr (Some r) \<Longrightarrow> good_record r"
  unfolding yavapai_row_def Let_def by (erule keep_row_Some) (simp add: good_record_def)

lemma standard_2014_row_good:
  "standard_2014_row county_name row = Inr (Some r) \<Longrightarrow> good_record r"
  unfolding standard_2014_row_def
  by (auto split: if_splits elim!: keep_row_Some simp: good_record_def)

lemma pinal_row_good:
  "pinal_row cn_field ch_field vt_field county_name row = Inr (Some r) \<Longrightarrow> good_record r"
  unfolding pinal_row_def by (erule keep_row_Some) (simp add: good_record_def)

lemma standard_row_good: "standard_row county_name row = Inr (Some r) \<Longrightarrow> good_record r"
  unfolding standard_row_def by (erule keep_row_Some) (simp add: good_record_def)

lemma collect_Inr:
  "collect f rows = Inr records \<Longrightarrow> r \<in> set records \<Longrightarrow> \<exists>row\<in>set rows. f row = Inr (Some r)"
proof (induction rows arbitrary: records)
  case Nil
  then show ?case by simp
next
  case (Cons row rows)
  from Cons.prems(1) obtain x rest where fx: "f row = Inr x" and c: "collect f rows = Inr rest"
    and recs: "records = (case x of None \<Rightarrow> rest | Some v \<Rightarrow> v # rest)"
    by (auto split: sum.splits)
  show ?case
  proof (cases "r \<in> set rest")
    case True
    with Cons.IH[OF c] show ?thesis by auto
  next
    case False
    with recs Cons.prems(2) have "x = Some r" by (cases x) auto
    with fx show ?thesis by simp
  qed
qed

lemma extract_records_cases:
  assumes "extract_records (fieldnames # body) county_name year county_lower = Inr records"
  obtains "records = []"
    | f where "collect f (map (dict_row fieldnames) (filter (\<lambda>cells. cells \<noteq> []) body)) = Inr records"
      and "f = maricopa_row county_name \<or> f = yavapai_row county_name \<or>
           f = standard_2014_row county_name \<or> f = standard_row county_name"
proof (cases "fieldnames = []")
  case True
  with assms that(1) show ?thesis by (simp add: extract_records_def)
next
  case ne: False
  let ?rows = "map (dict_row fieldnames) (filter (\<lambda>cells. cells \<noteq> []) body)"
  let ?fl = "map lower fieldnames"
  note defs = extract_records_def Let_def
  show ?thesis
  proof (cases "''contest_name'' \<in> set ?fl")
    case True
    with assms ne have "collect (maricopa_row county_name) ?rows = Inr records"
      by (simp add: defs)
    then show ?thesis using that(2) by blast
  next
    case a: False
    show ?thesis
    proof (cases "''contesttitle'' \<in> set ?fl")
      case True
      with assms ne a have "collect (yavapai_row county_name) ?rows = Inr records"
        by (simp add: defs)
      then show ?thesis using that(2) by blast
    next
      case b: False
      show ?thesis
      proof (cases "''race'' \<in> set ?fl \<and> ''race_id'' \<in> set ?fl")
        case True
        with assms ne a b have "collect (standard_2014_row county_name) ?rows = Inr records"
          by (simp add: defs)
        then show ?thesis using that(2) by blast
      next
        case c: False
        show ?thesis
        proof (cases "''office'' \<in> set ?fl")
          case True
          with assms ne a b c have "collect (standard_row county_name) ?rows = Inr records"
            by (auto simp: defs split: if_splits)
          then show ?thesis using that(2) by blast
        next
          case False
          with assms ne a b c have "records = []"
            by (auto simp: defs split: if_splits)
          then show ?thesis by (rule that(1))
        qed
      qed
    qed
  qed
qed

lemma extract_records_good:
  assumes "extract_records csv_rows county_name year county_lower = Inr records"
    and "r \<in> set records"
  shows "good_record r"
proof (cases csv_rows)
  case Nil
  with assms show ?thesis by (simp add: extract_records_def)
next
  case (Cons fieldnames body)
  from assms(1)[unfolded Cons] show ?thesis
  proof (cases rule: extract_records_cases)
    case 1
    with assms(2) show ?thesis by simp
  next
    case (2 f)
    from collect_Inr[OF 2(1) assms(2)] obtain row where "f row = Inr (Some r)" by blast
    with 2(2) show ?thesis
      using maricopa_row_good yavapai_row_good standard_2014_row_good standard_row_good
      by blast
  qed
qed

lemma is_metadata_row_label:
  "strip (upper label) \<in> set skip_values \<Longrightarrow> is_metadata_row label"
  by (simp add: is_metadata_row_def)

lemma is_metadata_row_starts:
  "startswith (strip (upper label)) ''WRITE-IN'' \<Longrightarrow> is_metadata_row label"
  "startswith (strip (upper label)) ''WRITE IN'' \<Longrightarrow> is_metadata_row label"
  "startswith (strip (upper label)) ''TOTAL'' \<Longrightarrow> is_metadata_row label"
  by (simp_all add: is_metadata_row_def)

text \<open>
  Claim C9 (metadata-row exclusion).  No record the extractor returns has a metadata
  label for its candidate, and so no aggregate made from its records has one.  A label
  that reads \<open>REGISTERED VOTERS\<close> or \<open>WRITE-IN\<close> once it is upper-cased and stripped, or
  that starts with \<open>WRITE-IN\<close> then, is a metadata label.
\<close>

theorem metadata_rows_excluded:
  "(\<forall>records. extract_records csv_rows county_name year county_lower = Inr records \<longrightarrow>
      (\<forall>r\<in>set records. \<not> is_metadata_row (candidate r)) \<and>
      (\<forall>aggs. aggregate_to_candidates records = Inr aggs \<longrightarrow>
         (\<forall>a\<in>set aggs. \<not> is_metadata_row (candidate a)))) \<and>
   (strip (upper label) = ''REGISTERED VOTERS'' \<or> strip (upper label) = ''WRITE-IN'' \<or>
    startswith (strip (upper label)) ''WRITE-IN'' \<longrightarrow> is_metadata_row label)"
proof (intro conjI allI impI ballI)
  fix records r
  assume e: "extract_records csv_rows county_name year county_lower = Inr records"
    and r: "r \<in> set records"
  from extract_records_good[OF e r] show "\<not> is_metadata_row (candidate r)"
    by (simp add: good_record_def)
next
  fix records aggs a
  assume e: "extract_records csv_rows county_name year county_lower = Inr records"
    and g: "aggregate_to_candidates records = Inr aggs" and a: "a \<in> set aggs"
  from aggregate_keys[OF g] a have "group_key a \<in> group_key ` set records" by auto
  then obtain r where r: "r \<in> set records" and "group_key r = group_key a" by auto
  then have "candidate a = candidate r" by (simp add: group_key_def)
  with extract_records_good[OF e r] show "\<not> is_metadata_row (candidate a)"
    by (simp add: good_record_def)
next
  assume "strip (upper label) = ''REGISTERED VOTERS'' \<or> strip (upper label) = ''WRITE-IN'' \<or>
    startswith (strip (upper label)) ''WRITE-IN''"
  then show "is_metadata_row label"
    using is_metadata_row_label[of label] is_metadata_row_starts(1)[of label]
    by (auto simp: skip_values_def)
qed

theorem metadata_rows_excluded_witness:
  "extract_records camp_verde_rows ''Yavapai'' 2018 ''yavapai'' = Inr camp_verde_records \<and>
   aggregate_to_candidates camp_verde_records = Inr camp_verde_aggregates \<and>
   list_all (\<lambda>r. \<not> is_metadata_row (candidate r)) camp_verde_records \<and>
   list_all (\<lambda>a. \<not> is_metadata_row (candidate a)) camp_verde_aggregates \<and>
   strip (upper '' Registered Voters '') = ''REGISTERED VOTERS'' \<and>
   is_metadata_row '' Registered Voters '' \<and>
   strip (upper ''Write-in'') = ''WRITE-IN'' \<and> is_metadata_row ''Write-in''"
proof -
  have e: "extract_records camp_verde_rows ''Yavapai'' 2018 ''yavapai'' = Inr camp_verde_records"
    by code_simp
  have g: "aggregate_to_candidates camp_verde_records = Inr camp_verde_aggregates"
    by code_simp
  have s: "strip (upper '' Registered Voters '') = ''REGISTERED VOTERS''"
    "strip (upper ''Write-in'') = ''WRITE-IN''"
    by code_simp+
  note t = metadata_rows_excluded[of camp_verde_rows "''Yavapai''" 2018 "''yavapai''"]
  from t[of "'' Registered Voters ''"] t[of "''Write-in''"] e g s show ?thesis
    unfolding list_all_iff by blast
qed

text \<open>
  Claim C8 (vote-count filtering).  The handler around \<open>int(float(votes))\<close> catches
  ValueError and TypeError only.  A row of a school-board race whose vote count reads
  \<open>-inf\<close> parses to minus infinity, whose conversion to an integer raises
  OverflowError: the extractor raises instead of skipping the row.
\<close>

theorem infinite_vote_count_raises:
  "extract_records infinite_votes_rows ''Yavapai'' 2018 ''yavapai'' = Inl OverflowError"
  by code_simp

text \<open>What does hold of the vote counts: every record returned has a positive vote
  count, and a row whose vote count is no number, is missing or is not positive gives
  no record and no exception of its own.\<close>

theorem vote_counts_positive:
  "extract_records csv_rows county_name year county_lower = Inr records \<Longrightarrow>
     \<forall>r\<in>set records. 0 < total_votes r"
  by (auto dest: extract_records_good simp: good_record_def)

theorem vote_counts_positive_witness:
  "extract_records camp_verde_rows ''Yavapai'' 2018 ''yavapai'' = Inr camp_verde_records \<and>
   list_all (\<lambda>r. 0 < total_votes r) camp_verde_records \<and>
   map total_votes camp_verde_records = [120, 90, 85, 40]"
proof -
  have e: "extract_records camp_verde_rows ''Yavapai'' 2018 ''yavapai'' = Inr camp_verde_records"
    by code_simp
  have m: "map total_votes camp_verde_records = [120, 90, 85, 40]"
    by (simp add: camp_verde_records_def)
  from vote_counts_positive[OF e] e m show ?thesis by (simp add: list_all_iff)
qed

lemma parse_votes_skip:
  assumes "votes = None \<or> (\<exists>s. votes = Some s \<and> (int_float_str s = Inl ValueError \<or>
      (\<exists>v. int_float_str s = Inr v \<and> v \<le> 0)))"
  shows "\<exists>v. parse_votes votes = Inr v \<and> v \<le> 0"
  using assms by (auto simp: parse_votes_def)

theorem unusable_vote_count_skipped:
  assumes "votes = None \<or> (\<exists>s. votes = Some s \<and> (int_float_str s = Inl ValueError \<or>
      (\<exists>v. int_float_str s = Inr v \<and> v \<le> 0)))"
  shows "keep_row contest dist cand votes mk \<in> {Inr None, Inl TypeError, Inl AttributeError}"
proof -
  from parse_votes_skip[OF assms] obtain v where "parse_votes votes = Inr v" "v \<le> 0" by blast
  then show ?thesis
    by (auto simp: keep_row_def split: option.splits)
qed

section \<open>Identifiers and years in canonical form\<close>

text \<open>The engine compares identifiers and years as \<open>str(int(float(s)))\<close>.  A canonical
  key followed by \<open>.0\<close>, the form in which the staged rows hold them, reads back as the
  key itself.\<close>

lemma non_digits:
  "\<not> is_digit (CHR ''_'')" "\<not> is_digit (CHR ''-'')" "\<not> is_digit (CHR ''+'')"
  "\<not> is_digit (CHR ''.'')" "\<not> is_digit (CHR ''i'')" "\<not> is_digit (CHR ''n'')"
  by (simp_all add: is_digit_def ascii_digits_def)

lemma digit_not_space: "is_digit c \<Longrightarrow> \<not> is_space c"
  unfolding is_digit_def ascii_digits_def list.set
  by (elim insertE emptyE) (simp_all add: is_space_def)

lemma digit_val_range: "is_digit c \<Longrightarrow> 0 \<le> digit_val c \<and> digit_val c < 10"
  unfolding is_digit_def ascii_digits_def list.set
  by (elim insertE emptyE) (simp_all add: digit_val_def)

lemma digit_char: "is_digit c \<Longrightarrow> ascii_digits ! nat (digit_val c) = c"
  unfolding is_digit_def ascii_digits_def list.set
  by (elim insertE emptyE) (simp_all add: digit_val_def)

lemma digit_val_zero: "is_digit c \<Longrightarrow> digit_val c = 0 \<Longrightarrow> c = CHR ''0''"
  unfolding is_digit_def ascii_digits_def list.set
  by (elim insertE emptyE) (simp_all add: digit_val_def)

lemma lower_char_digit: "is_digit c \<Longrightarrow> lower_char c = c"
  unfolding is_digit_def ascii_digits_def list.set
  by (elim insertE emptyE) (simp_all add: lower_char_def ascii_upper_def ascii_lower_def)

lemma digits_val_snoc: "digits_val (s @ [c]) = 10 * digits_val s + digit_val c"
  by (simp add: digits_val_def)

lemma digits_val_bounds:
  "list_all is_digit s \<Longrightarrow> 0 \<le> digits_val s \<and> digits_val s < 10 ^ length s"
proof (induction s rule: rev_induct)
  case Nil
  then show ?case by (simp add: digits_val_def)
next
  case (snoc c s)
  then have "0 \<le> digits_val s" "digits_val s + 1 \<le> 10 ^ length s"
    and "0 \<le> digit_val c" "digit_val c < 10"
    using digit_val_range[of c] by auto
  then show ?case by (simp add: digits_val_snoc)
qed

lemma digits_val_pos:
  "list_all is_digit s \<Longrightarrow> s \<noteq> [] \<Longrightarrow> hd s \<noteq> CHR ''0'' \<Longrightarrow> 0 < digits_val s"
proof (induction s rule: rev_induct)
  case Nil
  then show ?case by simp
next
  case (snoc c s)
  show ?case
  proof (cases "s = []")
    case True
    with snoc.prems digit_val_range[of c] digit_val_zero[of c] show ?thesis
      by (cases "digit_val c = 0") (auto simp: digits_val_snoc digits_val_def)
  next
    case False
    with snoc have "0 < digits_val s" by simp
    moreover from snoc.prems have "0 \<le> digit_val c" using digit_val_range[of c] by simp
    ultimately show ?thesis by (simp add: digits_val_snoc)
  qed
qed

lemma str_of_nat_digits:
  "list_all is_digit s \<Longrightarrow> s \<noteq> [] \<Longrightarrow> hd s \<noteq> CHR ''0'' \<Longrightarrow> str_of_nat (digits_val s) = s"
proof (induction s rule: rev_induct)
  case Nil
  then show ?case by simp
next
  case (snoc c s)
  from snoc.prems have c: "is_digit c" by simp
  note r = digit_val_range[OF c]
  show ?case
  proof (cases "s = []")
    case True
    then have "digits_val (s @ [c]) = digit_val c" by (simp add: digits_val_def)
    with r True show ?thesis
      by (simp add: str_of_nat.simps[of "digit_val c"] digit_char[OF c])
  next
    case False
    with snoc.prems have s: "list_all is_digit s" "hd s \<noteq> CHR ''0''" by auto
    from digits_val_pos[OF s(1) False s(2)] have p: "0 < digits_val s" .
    let ?n = "10 * digits_val s + digit_val c"
    have "\<not> ?n < 10" using p r by simp
    moreover have "?n div 10 = digits_val s" using r by simp
    moreover have "?n mod 10 = digit_val c" using r by simp
    ultimately have "str_of_nat ?n = str_of_nat (digits_val s) @ [ascii_digits ! nat (digit_val c)]"
      by (subst str_of_nat.simps) simp
    with snoc.IH[OF s(1) False s(2)] show ?thesis
      by (simp add: digits_val_snoc digit_char[OF c])
  qed
qed

lemma bit_length_le: "0 \<le> n \<Longrightarrow> n < 2 ^ j \<Longrightarrow> bit_length n \<le> int j"
proof (induction j arbitrary: n)
  case 0
  then have "n = 0" by simp
  then show ?case by (simp add: bit_length.simps)
next
  case (Suc j)
  show ?case
  proof (cases "n \<le> 0")
    case True
    then show ?thesis by (simp add: bit_length.simps)
  next
    case False
    from Suc.prems have "0 \<le> n div 2" "n div 2 < 2 ^ j" by auto
    from Suc.IH[OF this] False show ?thesis
      by (subst bit_length.simps) simp
  qed
qed

lemma bit_length_nonneg: "0 \<le> bit_length n"
  by (induction n rule: bit_length.induct) (subst bit_length.simps, simp)

lemma bit_length_10: "bit_length 10 = 4"
  by (simp add: bit_length.simps)

lemma round_half_even_exact: "0 < d \<Longrightarrow> round_half_even (n * d) d = n"
  by (simp add: round_half_even_def)

lemma round_tenths:
  assumes "0 < n" and "n < 2 ^ 50"
  shows "int_of_float (round_double False (n * 10) 10) = Inr n"
proof -
  define e where "e = max (floor_log2 (n * 10) 10 - 52) (- 1074)"
  have "n * 10 < 2 ^ 54" using assms by simp
  with assms have "bit_length (n * 10) \<le> 54"
    using bit_length_le[of "n * 10" 54] by simp
  then have "floor_log2 (n * 10) 10 \<le> 50"
    by (simp add: floor_log2_def Let_def bit_length_10)
  then have e: "e \<le> 0" "- 1074 \<le> e" by (simp_all add: e_def)
  define j where "j = nat (- e)"
  define m where "m = n * 2 ^ j"
  have m: "(if 0 \<le> e then round_half_even (n * 10) (10 * 2 ^ nat e)
            else round_half_even (n * 10 * 2 ^ nat (- e)) 10) = m"
  proof (cases "0 \<le> e")
    case True
    with e have "e = 0" by simp
    then show ?thesis
      using round_half_even_exact[of 10 n] by (simp add: m_def j_def)
  next
    case False
    have "n * 10 * 2 ^ j = (n * 2 ^ j) * 10" by simp
    then have "round_half_even (n * 10 * 2 ^ j) 10 = round_half_even ((n * 2 ^ j) * 10) 10"
      by (rule arg_cong)
    also have "\<dots> = n * 2 ^ j"
      by (rule round_half_even_exact) simp
    finally have "round_half_even (n * 10 * 2 ^ j) 10 = n * 2 ^ j" .
    with False show ?thesis
      unfolding m_def j_def by (simp only: if_False)
  qed
  have "m < 2 ^ (50 + j)" using assms by (simp add: m_def power_add)
  moreover have "0 \<le> m" using assms by (simp add: m_def)
  ultimately have "bit_length m \<le> int (50 + j)" by (rule bit_length_le[rotated])
  then have nov: "\<not> 1024 < bit_length m + e" using e by (simp add: j_def)
  have "round_double False (n * 10) 10 = Finite False m e"
    using assms(1) m nov by (simp add: round_double_def Let_def e_def[symmetric])
  moreover have "(if 0 \<le> e then m * 2 ^ nat e else m div 2 ^ nat (- e)) = n"
    using e by (auto simp: m_def j_def)
  ultimately show ?thesis by (simp add: Let_def)
qed

lemma drop_underscores_none:
  "CHR ''_'' \<notin> set s \<Longrightarrow> p \<noteq> CHR ''_'' \<Longrightarrow> drop_underscores p s = Some s"
  by (induction s arbitrary: p) auto

lemma strip_id:
  assumes "s \<noteq> []" and "\<not> is_space (hd s)" and "\<not> is_space (last s)"
  shows "strip s = s"
proof -
  have "dropWhile is_space s = s" using assms by (cases s) auto
  moreover have "dropWhile is_space (rev s) = rev s"
    using assms by (cases s rule: rev_cases) auto
  ultimately show ?thesis by (simp add: strip_def lstrip_def rstrip_def)
qed

lemma canon_fixed:
  assumes "canonical_key s"
  shows "canon (s @ ''.0'') = Inr s"
proof -
  from assms have ne: "s \<noteq> []" and dig: "list_all is_digit s" and hd0: "hd s \<noteq> CHR ''0''"
    and len: "length s \<le> 15"
    by (simp_all add: canonical_key_def)
  from ne obtain c cs where s: "s = c # cs" by (cases s) auto
  with dig have c: "is_digit c" by simp
  have nus: "CHR ''_'' \<notin> set (s @ ''.0'')"
    using dig non_digits(1) by (auto simp: list_all_iff)
  have "strip (s @ ''.0'') = s @ ''.0''"
    using digit_not_space[OF c] by (intro strip_id) (simp_all add: s is_space_def)
  moreover have "split_sign (s @ ''.0'') = (False, s @ ''.0'')"
    using c non_digits(2,3) by (auto simp: s)
  moreover have "lower (s @ ''.0'') \<noteq> ''inf''" "lower (s @ ''.0'') \<noteq> ''infinity''"
    "lower (s @ ''.0'') \<noteq> ''nan''"
    using c non_digits(5,6) lower_char_digit[OF c] by (auto simp: s lower_def)
  moreover have "float_of_decimal False (s @ ''.0'') =
      Some (round_double False (digits_val s * 10) 10)"
  proof -
    have nd: "\<not> is_digit (CHR ''.'')" and d0: "is_digit (CHR ''0'')"
      by (simp_all add: is_digit_def ascii_digits_def)
    have every: "\<And>x. x \<in> set s \<Longrightarrow> is_digit x" using dig by (simp add: list_all_iff)
    have tw: "takeWhile is_digit (s @ ''.0'') = s" "dropWhile is_digit (s @ ''.0'') = ''.0''"
      by (simp_all add: takeWhile_append2 dropWhile_append2 every nd)
    have v: "digits_val (s @ ''0'') = digits_val s * 10"
      by (simp add: digits_val_snoc digit_val_def)
    show ?thesis
      unfolding float_of_decimal_def tw Let_def
      by (simp add: d0 ne v)
  qed
  ultimately have f: "float_of_str (s @ ''.0'') = Some (round_double False (digits_val s * 10) 10)"
    unfolding float_of_str_def
    by (simp add: drop_underscores_none[OF nus])
  have "digits_val s < 10 ^ 15"
  proof -
    have "digits_val s < 10 ^ length s" using digits_val_bounds[OF dig] by simp
    also have "(10::int) ^ length s \<le> 10 ^ 15" using len by (intro power_increasing) simp_all
    finally show ?thesis .
  qed
  then have "digits_val s < 2 ^ 50" by simp
  from round_tenths[OF digits_val_pos[OF dig ne hd0] this] f
  have "int_float_str (s @ ''.0'') = Inr (digits_val s)"
    by (simp add: int_float_str_def)
  moreover have "str_of_int (digits_val s) = s"
    using digits_val_pos[OF dig ne hd0] str_of_nat_digits[OF dig ne hd0]
    by (simp add: str_of_int_def)
  ultimately show ?thesis by (simp add: canon_def)
qed

lemma table_values_canonical: "list_all (\<lambda>(key, ctds). canonical_key ctds) MANUAL_CTDS_MAP"
  by code_simp

lemma years_canonical: "list_all (\<lambda>y. canonical_key (str_of_int y)) YEARS"
  by code_simp

end
